theory Spec2Isabelle
  imports Complex_Main "HOL-Library.Sublist" "HOL-Library.Log_Nat"
begin

section \<open>JavaScript values used by the render endpoint\<close>

text \<open>
  The request body is JSON. A field that is absent (or \<open>null\<close>) is \<open>None\<close>; a numeric
  field holds a number, a textual field a string, as the data model of the specification
  types them. A number is the rational value of a finite double. Results of arithmetic
  and of \<open>parseFloat\<close> can also be \<open>NaN\<close> or an infinity.
\<close>

datatype jsnum = Num rat | NaN | PosInf | NegInf

subsection \<open>Doubles\<close>

text \<open>
  A rational is a finite double when it is \<open>m * 2 ^ e\<close> for integers \<open>\<bar>m\<bar> < 2 ^ 53\<close> and
  \<open>- 1074 \<le> e \<le> 971\<close>: its denominator in lowest terms is a power of two of at most
  \<open>2 ^ 1074\<close>, the odd part of its numerator has at most 53 bits, and its magnitude is
  below \<open>2 ^ 1024\<close>.
\<close>

function odd_part :: "int \<Rightarrow> int" where
  "odd_part n = (if n = 0 \<or> odd n then n else odd_part (n div 2))"
  by pat_completeness auto
termination
  by (relation "measure (\<lambda>n. nat \<bar>n\<bar>)") auto

declare odd_part.simps [simp del]

definition is_double :: "rat \<Rightarrow> bool" where
  "is_double q =
     (let (n, d) = quotient_of q
      in odd_part d = 1 \<and> bitlen d \<le> 1075 \<and> bitlen \<bar>odd_part n\<bar> \<le> 53 \<and>
         bitlen \<bar>n\<bar> \<le> 1023 + bitlen d)"

text \<open>
  The primitives of the language on numbers: how a number is printed (\<open>String(x)\<close> in a
  template literal, and \<open>x.toFixed(1)\<close>), and how the exact result of an operation is
  rounded to a double when it is not one itself. The builders take them as a parameter.
  Array indices and lengths are small natural numbers and are printed in decimal.
\<close>

record numops =
  num_str :: "rat \<Rightarrow> string"
  to_fixed1 :: "rat \<Rightarrow> string"
  round_double :: "rat \<Rightarrow> jsnum"

text \<open>The double that an operation with the exact result \<open>q\<close> returns: \<open>q\<close> itself when it
  is a double, its rounding otherwise.\<close>

definition fround :: "numops \<Rightarrow> rat \<Rightarrow> jsnum" where
  "fround ops q = (if is_double q then Num q else round_double ops q)"

fun js_lt :: "jsnum \<Rightarrow> jsnum \<Rightarrow> bool" where
  "js_lt (Num a) (Num b) = (a < b)"
| "js_lt (Num a) PosInf = True"
| "js_lt NegInf (Num b) = True"
| "js_lt NegInf PosInf = True"
| "js_lt _ _ = False"

fun js_sub :: "numops \<Rightarrow> jsnum \<Rightarrow> jsnum \<Rightarrow> jsnum" where
  "js_sub ops (Num a) (Num b) = fround ops (a - b)"
| "js_sub ops NaN _ = NaN"
| "js_sub ops _ NaN = NaN"
| "js_sub ops PosInf PosInf = NaN"
| "js_sub ops NegInf NegInf = NaN"
| "js_sub ops PosInf _ = PosInf"
| "js_sub ops NegInf _ = NegInf"
| "js_sub ops (Num a) PosInf = NegInf"
| "js_sub ops (Num a) NegInf = PosInf"

fun js_add :: "numops \<Rightarrow> jsnum \<Rightarrow> jsnum \<Rightarrow> jsnum" where
  "js_add ops (Num a) (Num b) = fround ops (a + b)"
| "js_add ops NaN _ = NaN"
| "js_add ops _ NaN = NaN"
| "js_add ops PosInf NegInf = NaN"
| "js_add ops NegInf PosInf = NaN"
| "js_add ops PosInf _ = PosInf"
| "js_add ops NegInf _ = NegInf"
| "js_add ops (Num a) PosInf = PosInf"
| "js_add ops (Num a) NegInf = NegInf"

text \<open>The product of two finite numbers.\<close>

definition js_mul :: "numops \<Rightarrow> rat \<Rightarrow> rat \<Rightarrow> jsnum" where
  "js_mul ops a b = fround ops (a * b)"

text \<open>\<open>Math.ceil\<close>, \<open>Math.round\<close> (to the nearest integer, a tie upwards) and \<open>Math.max\<close>
  return an exact result.\<close>

fun js_ceil :: "jsnum \<Rightarrow> jsnum" where
  "js_ceil (Num a) = Num (of_int \<lceil>a\<rceil>)"
| "js_ceil x = x"

fun js_round :: "jsnum \<Rightarrow> jsnum" where
  "js_round (Num a) = Num (of_int (round a))"
| "js_round x = x"

fun js_max :: "jsnum \<Rightarrow> jsnum \<Rightarrow> jsnum" where
  "js_max NaN _ = NaN"
| "js_max _ NaN = NaN"
| "js_max a b = (if js_lt a b then b else a)"

text \<open>Truthiness of an optional string and of an optional number, and the operator
  \<open>||\<close> on an optional number with a numeric default.\<close>

definition truthy_str :: "string option \<Rightarrow> bool" where
  "truthy_str v = (case v of None \<Rightarrow> False | Some s \<Rightarrow> s \<noteq> [])"

definition truthy_num :: "rat option \<Rightarrow> bool" where
  "truthy_num v = (case v of None \<Rightarrow> False | Some x \<Rightarrow> x \<noteq> 0)"

definition js_or :: "rat option \<Rightarrow> rat \<Rightarrow> rat" where
  "js_or v d = (if truthy_num v then the v else d)"

fun jsnum_str :: "numops \<Rightarrow> jsnum \<Rightarrow> string" where
  "jsnum_str ops (Num x) = num_str ops x"
| "jsnum_str ops NaN = ''NaN''"
| "jsnum_str ops PosInf = ''Infinity''"
| "jsnum_str ops NegInf = ''-Infinity''"

fun jsnum_fixed1 :: "numops \<Rightarrow> jsnum \<Rightarrow> string" where
  "jsnum_fixed1 ops (Num x) = to_fixed1 ops x"
| "jsnum_fixed1 ops NaN = ''NaN''"
| "jsnum_fixed1 ops PosInf = ''Infinity''"
| "jsnum_fixed1 ops NegInf = ''-Infinity''"

fun show_nat :: "nat \<Rightarrow> string" where
  "show_nat n =
     (if n < 10 then [''0123456789'' ! n]
      else show_nat (n div 10) @ [''0123456789'' ! (n mod 10)])"

declare show_nat.simps [simp del]

definition padStart :: "nat \<Rightarrow> char \<Rightarrow> string \<Rightarrow> string" where
  "padStart n c s = replicate (n - length s) c @ s"

fun join :: "string \<Rightarrow> string list \<Rightarrow> string" where
  "join sep [] = []"
| "join sep [x] = x"
| "join sep (x # y # ys) = x @ sep @ join sep (y # ys)"

text \<open>\<open>s.replace(pat, rep)\<close> with a string pattern: the first occurrence only. The
  replacements used here contain no \<open>$\<close>, so no substitution pattern applies.\<close>

fun replace_first :: "string \<Rightarrow> string \<Rightarrow> string \<Rightarrow> string" where
  "replace_first pat rep [] = (if pat = [] then rep else [])"
| "replace_first pat rep (c # cs) =
     (if prefix pat (c # cs) then rep @ drop (length pat) (c # cs)
      else c # replace_first pat rep cs)"

text \<open>\<open>s.replace(/c/g, rep)\<close> for a single character \<open>c\<close>: every occurrence.\<close>

definition replace_all_char :: "char \<Rightarrow> string \<Rightarrow> string \<Rightarrow> string" where
  "replace_all_char c rep s = concat (map (\<lambda>x. if x = c then rep else [x]) s)"

subsection \<open>path.join\<close>

text \<open>
  \<open>path.join\<close> of two strings on a POSIX system: the non-empty arguments are joined
  with a slash and the result is normalised. Empty segments and \<open>.\<close> are dropped, \<open>..\<close>
  removes the segment before it (at the root of an absolute path it is dropped, at the
  front of a relative path it is kept), and a trailing slash is kept.
\<close>

fun split_on :: "char \<Rightarrow> string \<Rightarrow> string list" where
  "split_on c [] = [[]]"
| "split_on c (x # xs) =
     (if x = c then [] # split_on c xs
      else (case split_on c xs of s # ss \<Rightarrow> (x # s) # ss | [] \<Rightarrow> [[x]]))"

definition normalize_step :: "bool \<Rightarrow> string list \<Rightarrow> string \<Rightarrow> string list" where
  "normalize_step allowAboveRoot res seg =
     (if seg = [] \<or> seg = ''.'' then res
      else if seg = ''..''
           then (if res \<noteq> [] \<and> last res \<noteq> ''..'' then butlast res
                 else if allowAboveRoot then res @ [''..''] else res)
           else res @ [seg])"

definition normalizeString :: "string \<Rightarrow> bool \<Rightarrow> string" where
  "normalizeString path allowAboveRoot =
     join ''/'' (foldl (normalize_step allowAboveRoot) [] (split_on (CHR ''/'') path))"

definition normalize :: "string \<Rightarrow> string" where
  "normalize path =
     (if path = [] then ''.''
      else (let isAbsolute = (hd path = CHR ''/'');
                trailingSeparator = (last path = CHR ''/'');
                p = normalizeString path (\<not> isAbsolute)
            in if p = []
               then (if isAbsolute then ''/'' else if trailingSeparator then ''./'' else ''.'')
               else (let p = (if trailingSeparator then p @ ''/'' else p)
                     in if isAbsolute then ''/'' @ p else p)))"

definition path_join :: "string \<Rightarrow> string \<Rightarrow> string" where
  "path_join a b =
     (let joined = join ''/'' (filter (\<lambda>arg. arg \<noteq> []) [a, b])
      in if joined = [] then ''.'' else normalize joined)"

subsection \<open>A concrete instance of the primitives\<close>

text \<open>
  For evaluating the builders on concrete requests: a printer that writes an integer in
  decimal and a short decimal fraction digit by digit, as JavaScript does for such
  numbers, \<open>toFixed(1)\<close> rounding to one decimal place, and the rounding of a rational to
  the nearest double, a tie going to the even significand.
\<close>

fun frac_digits :: "nat \<Rightarrow> rat \<Rightarrow> string" where
  "frac_digits 0 r = []"
| "frac_digits (Suc n) r =
     (if r = 0 then []
      else (''0123456789'' ! nat \<lfloor>r * 10\<rfloor>) #
           frac_digits n (r * 10 - of_int \<lfloor>r * 10\<rfloor>))"

definition show_dec :: "rat \<Rightarrow> string" where
  "show_dec r =
     (if r < 0 then ''-'' else []) @ show_nat (nat \<lfloor>\<bar>r\<bar>\<rfloor>) @
     (if \<bar>r\<bar> = of_int \<lfloor>\<bar>r\<bar>\<rfloor> then []
      else ''.'' @ frac_digits 15 (\<bar>r\<bar> - of_int \<lfloor>\<bar>r\<bar>\<rfloor>))"

definition show_fixed1 :: "rat \<Rightarrow> string" where
  "show_fixed1 r =
     (if r < 0 then ''-'' else []) @
     show_nat (nat (\<lfloor>\<bar>r\<bar> * 10 + 1 / 2\<rfloor> div 10)) @ ''.'' @
     show_nat (nat (\<lfloor>\<bar>r\<bar> * 10 + 1 / 2\<rfloor> mod 10))"

definition pow2 :: "int \<Rightarrow> rat" where
  "pow2 k = (if 0 \<le> k then 2 ^ nat k else 1 / 2 ^ nat (- k))"

definition round_half_even :: "rat \<Rightarrow> int" where
  "round_half_even m =
     (let r = \<lfloor>m\<rfloor>
      in if m - of_int r > 1 / 2 \<or> (m - of_int r = 1 / 2 \<and> odd r) then r + 1 else r)"

text \<open>
  \<open>ex\<close> is the exponent of \<open>\<bar>q\<bar>\<close>, \<open>2 ^ ex \<le> \<bar>q\<bar> < 2 ^ (ex + 1)\<close>, but at least \<open>- 1022\<close>
  (below that the numbers are subnormal); \<open>ulp\<close> is the distance between neighbouring
  doubles at that exponent, and \<open>r\<close> the significand after rounding, at most \<open>2 ^ 53\<close>.
  The result overflows to an infinity when it reaches \<open>2 ^ 1024\<close>.
\<close>

definition nearest_double :: "rat \<Rightarrow> jsnum" where
  "nearest_double q =
     (if q = 0 then Num 0
      else (let a = \<bar>q\<bar>;
                (n, d) = quotient_of a;
                k = bitlen n - bitlen d;
                ex = max (if pow2 k \<le> a then k else k - 1) (- 1022);
                ulp = pow2 (ex - 52);
                r = round_half_even (a / ulp);
                v = of_int r * ulp
            in if 1023 < ex \<or> (ex = 1023 \<and> r = 2 ^ 53)
               then (if q < 0 then NegInf else PosInf)
               else Num (if q < 0 then - v else v)))"

definition decimal_ops :: numops where
  "decimal_ops = \<lparr>num_str = show_dec, to_fixed1 = show_fixed1, round_double = nearest_double\<rparr>"

section \<open>The render request\<close>

text \<open>
  \<open>generation_id\<close> is opaque: it is used as it comes, in a template literal, before the
  \<open>try\<close> statement, so it is modelled with every JSON value it can hold. The other
  fields have the types of the data model.
\<close>

datatype jsval =
    JNull
  | JBool bool
  | JNum rat
  | JStr string
  | JArr "jsval list"
  | JObj "(string \<times> jsval) list"

fun truthy_val :: "jsval \<Rightarrow> bool" where
  "truthy_val JNull = False"
| "truthy_val (JBool b) = b"
| "truthy_val (JNum x) = (x \<noteq> 0)"
| "truthy_val (JStr s) = (s \<noteq> [])"
| "truthy_val (JArr xs) = True"
| "truthy_val (JObj kvs) = True"

text \<open>
  The text of a JSON value inside a template literal, \<open>None\<close> when the conversion throws
  a \<open>TypeError\<close>. An array prints its elements separated by commas, \<open>null\<close> as the empty
  string. An object prints as \<open>[object Object]\<close>, unless it has a key \<open>toString\<close> of its
  own: the value under that key is not callable, and neither is one under \<open>valueOf\<close>,
  while the inherited \<open>valueOf\<close> returns the object itself, so no primitive is found.
\<close>

fun template :: "numops \<Rightarrow> jsval \<Rightarrow> string option"
  and template_elems :: "numops \<Rightarrow> jsval list \<Rightarrow> string list option" where
  "template ops JNull = Some ''null''"
| "template ops (JBool b) = Some (if b then ''true'' else ''false'')"
| "template ops (JNum x) = Some (num_str ops x)"
| "template ops (JStr s) = Some s"
| "template ops (JArr xs) = map_option (join '','') (template_elems ops xs)"
| "template ops (JObj kvs) =
     (if ''toString'' \<in> set (map fst kvs) then None else Some ''[object Object]'')"
| "template_elems ops [] = Some []"
| "template_elems ops (x # xs) =
     (case (if x = JNull then Some [] else template ops x) of
        None \<Rightarrow> None
      | Some s \<Rightarrow> map_option ((#) s) (template_elems ops xs))"

record scene =
  video_url :: string
  duration :: rat

record music_segment =
  music_url :: string
  start_time :: "rat option"
  music_duration :: "rat option"
  fade_in :: "rat option"
  fade_out :: "rat option"

record request =
  scenes :: "scene list option"
  narration_url :: "string option"
  music_segments :: "music_segment list option"
  music_volume :: "rat option"
  caption_file_url :: "string option"
  caption_style :: "string option"
  generation_id :: "jsval option"
  b2_path :: "string option"
  b2_bucket :: "string option"

section \<open>getCaptionStyle\<close>

text \<open>
  \<open>styles\<close> is an object literal, so \<open>styles[styleName]\<close> finds the three own
  properties and, failing that, the properties every object inherits from
  \<open>Object.prototype\<close>. An inherited property is a function (or, for \<open>__proto__\<close>, the
  prototype object): always truthy.
\<close>

datatype jsprop = PString string | PInherited string

definition object_prototype_keys :: "string list" where
  "object_prototype_keys =
     [''constructor'', ''__defineGetter__'', ''__defineSetter__'', ''hasOwnProperty'',
      ''__lookupGetter__'', ''__lookupSetter__'', ''isPrototypeOf'',
      ''propertyIsEnumerable'', ''toString'', ''valueOf'', ''__proto__'',
      ''toLocaleString'']"

definition just_text :: string where
  "just_text = ''FontName=Inter,FontSize=22,PrimaryColour=&H00FFFFFF,OutlineColour=&H00000000,BorderStyle=1,Outline=3,Shadow=0,MarginV=40''"

definition line_box :: string where
  "line_box = ''FontName=Inter,FontSize=22,PrimaryColour=&H00FFFFFF,BackColour=&H99000000,BorderStyle=4,Outline=0,Shadow=0,MarginV=40''"

definition word_box :: string where
  "word_box = ''FontName=Inter,FontSize=22,PrimaryColour=&H00FFFFFF,BackColour=&HB3000000,BorderStyle=4,Outline=0,Shadow=0,MarginV=40''"

definition styles :: "(string \<times> string) list" where
  "styles = [(''just_text'', just_text), (''line_box'', line_box), (''word_box'', word_box)]"

definition get_prop :: "(string \<times> string) list \<Rightarrow> string \<Rightarrow> jsprop option" where
  "get_prop obj k =
     (case map_of obj k of
        Some v \<Rightarrow> Some (PString v)
      | None \<Rightarrow> if k \<in> set object_prototype_keys then Some (PInherited k) else None)"

fun truthy_prop :: "jsprop option \<Rightarrow> bool" where
  "truthy_prop None = False"
| "truthy_prop (Some (PString s)) = (s \<noteq> [])"
| "truthy_prop (Some (PInherited k)) = True"

definition getCaptionStyle :: "string \<Rightarrow> jsprop" where
  "getCaptionStyle styleName =
     (let v = get_prop styles styleName
      in if truthy_prop v then the v else PString line_box)"

text \<open>The text a property value becomes inside a template literal: a native function
  prints as its source placeholder, the prototype object as \<open>[object Object]\<close>.\<close>

fun prop_str :: "jsprop \<Rightarrow> string" where
  "prop_str (PString s) = s"
| "prop_str (PInherited k) =
     (if k = ''__proto__'' then ''[object Object]''
      else ''function '' @ (if k = ''constructor'' then ''Object'' else k) @
           ''() { [native code] }'')"

section \<open>Duration normaliser: the command of one scene clip\<close>

definition sq :: string where
  "sq = [CHR 0x27]"

definition bs :: string where
  "bs = [CHR 0x5C]"

definition padded :: "nat \<Rightarrow> string" where
  "padded i = padStart 3 (CHR ''0'') (show_nat (i + 1))"

definition base_vf :: string where
  "base_vf = ''fps=30,scale=1920:1080:force_original_aspect_ratio=decrease,pad=1920:1080:(ow-iw)/2:(oh-ih)/2:black''"

definition needsPadding :: "jsnum \<Rightarrow> rat \<Rightarrow> bool" where
  "needsPadding sourceDuration targetDuration = js_lt sourceDuration (Num targetDuration)"

definition clip_vf :: "numops \<Rightarrow> jsnum \<Rightarrow> rat \<Rightarrow> string" where
  "clip_vf ops sourceDuration targetDuration =
     (let vf = base_vf
      in if needsPadding sourceDuration targetDuration
         then (let padSeconds =
                     js_add ops (js_ceil (js_sub ops (Num targetDuration) sourceDuration)) (Num 1)
               in vf @ '',tpad=stop_mode=clone:stop_duration='' @ jsnum_str ops padSeconds)
         else vf)"

definition clip_args :: "numops \<Rightarrow> string \<Rightarrow> string \<Rightarrow> jsnum \<Rightarrow> rat \<Rightarrow> string" where
  \<open>clip_args ops inputPath outputPath sourceDuration targetDuration =
     ''-y -i "'' @ inputPath @ ''" -vf "'' @ clip_vf ops sourceDuration targetDuration @
     ''" -t '' @ num_str ops targetDuration @
     '' -c:v libx264 -preset fast -crf 18 -an "'' @ outputPath @ ''"''\<close>

definition clip_label :: "numops \<Rightarrow> nat \<Rightarrow> jsnum \<Rightarrow> rat \<Rightarrow> string" where
  "clip_label ops i sourceDuration targetDuration =
     ''clip '' @ padded i @ '' ('' @ jsnum_fixed1 ops sourceDuration @ ''s -> '' @
     num_str ops targetDuration @ ''s)''"

section \<open>Audio graph builder\<close>

definition aformat :: string where
  "aformat = ''aformat=sample_fmts=fltp:sample_rates=44100:channel_layouts=stereo''"

definition nar_branch :: string where
  "nar_branch = ''[1:a]'' @ aformat @ ''[nar]''"

definition music_label :: "nat \<Rightarrow> string" where
  "music_label i = ''[m'' @ show_nat i @ '']''"

text \<open>The constants computed for one segment inside the \<open>forEach\<close> callback. The
  product, the difference, \<open>Math.round\<close> and \<open>Math.max\<close> are those of doubles.\<close>

definition delayMs :: "numops \<Rightarrow> music_segment \<Rightarrow> jsnum" where
  "delayMs ops seg = js_round (js_mul ops (js_or (start_time seg) 0) 1000)"

definition fadeIn :: "music_segment \<Rightarrow> rat" where
  "fadeIn seg = js_or (fade_in seg) 2"

definition fadeOut :: "music_segment \<Rightarrow> rat" where
  "fadeOut seg = js_or (fade_out seg) (3 / 2)"

definition segDuration :: "music_segment \<Rightarrow> rat" where
  "segDuration seg = js_or (music_duration seg) 30"

definition fadeOutStart :: "numops \<Rightarrow> music_segment \<Rightarrow> jsnum" where
  "fadeOutStart ops seg = js_max (Num 0) (js_sub ops (Num (segDuration seg)) (Num (fadeOut seg)))"

definition music_chain :: "numops \<Rightarrow> rat \<Rightarrow> nat \<Rightarrow> music_segment \<Rightarrow> string" where
  "music_chain ops vol i seg =
     (let inputIdx = i + 2;
          chain = ''['' @ show_nat inputIdx @ '':a]'' @ aformat;
          chain = chain @ '',volume='' @ num_str ops vol;
          chain = chain @ '',afade=t=in:d='' @ num_str ops (fadeIn seg);
          chain = chain @ '',afade=t=out:st='' @ jsnum_str ops (fadeOutStart ops seg) @ '':d='' @
                  num_str ops (fadeOut seg);
          chain = (if js_lt (Num 0) (delayMs ops seg)
                   then chain @ '',adelay='' @ jsnum_str ops (delayMs ops seg) @ ''|'' @
                        jsnum_str ops (delayMs ops seg)
                   else chain)
      in chain @ music_label i)"

text \<open>The shared gain. The literal \<open>0.08\<close> is only printed, never computed with, and is
  kept as the decimal it denotes.\<close>

definition vol :: "request \<Rightarrow> rat" where
  "vol req = js_or (music_volume req) (8 / 100)"

text \<open>The two arrays the assembly step fills: \<open>filterParts\<close> and \<open>mixInputs\<close>.\<close>

definition has_music :: "request \<Rightarrow> bool" where
  "has_music req = (case music_segments req of None \<Rightarrow> False | Some segs \<Rightarrow> length segs > 0)"

definition filterParts :: "numops \<Rightarrow> request \<Rightarrow> string list" where
  "filterParts ops req =
     [nar_branch] @
     (if has_music req
      then map (\<lambda>(i, seg). music_chain ops (vol req) i seg)
             (enumerate 0 (the (music_segments req)))
      else [])"

definition mixInputs :: "request \<Rightarrow> string list" where
  "mixInputs req =
     [''[nar]''] @
     (if has_music req
      then map (\<lambda>(i, seg). music_label i) (enumerate 0 (the (music_segments req)))
      else [])"

definition audioFilter :: "numops \<Rightarrow> request \<Rightarrow> string" where
  "audioFilter ops req =
     (if length (mixInputs req) = 1
      then replace_first ''[nar]'' ''[audio]'' (hd (filterParts ops req))
      else join '';'' (filterParts ops req) @ '';'' @ concat (mixInputs req) @
           ''amix=inputs='' @ show_nat (length (mixInputs req)) @
           '':duration=first:dropout_transition=2[audio]'')"

section \<open>Caption overlay builder\<close>

definition hasCaptions :: "request \<Rightarrow> bool" where
  "hasCaptions req =
     (truthy_str (caption_file_url req) \<and> truthy_str (caption_style req) \<and>
      caption_style req \<noteq> Some ''none'')"

definition escapedSrtPath :: "string \<Rightarrow> string" where
  "escapedSrtPath captionsPath =
     replace_all_char (CHR '':'') (bs @ '':'')
       (replace_all_char (CHR 0x27) (sq @ bs @ sq @ sq) captionsPath)"

definition videoFilter :: "request \<Rightarrow> string \<Rightarrow> string" where
  \<open>videoFilter req captionsPath =
     (if hasCaptions req
      then (let styleStr = getCaptionStyle (the (caption_style req))
            in ''-vf "subtitles='' @ sq @ escapedSrtPath captionsPath @ sq @
               '':force_style='' @ sq @ prop_str styleStr @ sq @ ''"'')
      else [])\<close>

section \<open>Assembly: the final command\<close>

definition musicPaths :: "string \<Rightarrow> request \<Rightarrow> string list" where
  "musicPaths tempDir req =
     (if has_music req
      then map (\<lambda>(i, seg). path_join tempDir (''music_'' @ show_nat (i + 1) @ ''.mp3''))
             (enumerate 0 (the (music_segments req)))
      else [])"

definition inputs :: "string \<Rightarrow> string \<Rightarrow> string list \<Rightarrow> string" where
  \<open>inputs concatListPath narrationPath mps =
     ''-f concat -safe 0 -i "'' @ concatListPath @ ''" -i "'' @ narrationPath @ ''"'' @
     concat (map (\<lambda>mp. '' -i "'' @ mp @ ''"'') mps)\<close>

definition finalArgs :: "numops \<Rightarrow> request \<Rightarrow> string \<Rightarrow> string" where
  \<open>finalArgs ops req tempDir =
     join '' ''
       [''-y '' @ inputs (path_join tempDir ''concat.txt'') (path_join tempDir ''narration.mp3'')
                   (musicPaths tempDir req),
        ''-filter_complex "'' @ audioFilter ops req @ ''"'',
        ''-map 0:v '' @ videoFilter req (path_join tempDir ''captions.srt''),
        ''-map "[audio]"'',
        ''-c:v libx264 -preset medium -crf 20'',
        ''-c:a aac -b:a 192k'',
        ''-movflags +faststart'',
        ''-shortest'',
        ''"'' @ path_join tempDir ''output.mp4'' @ ''"'']\<close>

section \<open>The job: state, effects and errors\<close>

text \<open>
  The only state shared between jobs is the counter \<open>activeRenders\<close>. What a job does to
  the outside world is recorded, in order, in \<open>events\<close>: a directory it asks for, a
  download and a subprocess it starts, a file it has written, the upload it starts, the
  render log it has written, and a write that threw (with the path it was for).
  Wall-clock measurements (\<open>duration_seconds\<close>, \<open>processing_time_seconds\<close>,
  \<open>started_at\<close>, \<open>completed_at\<close>) are left out of the log and of the response.
\<close>

datatype error =
    NoScenes
  | NoNarrationUrl
  | NoB2Path
  | FsError string
  | DownloadFailed string
  | FFmpegFailed string string
  | NoOutputFile
  | OutputTooSmall nat
  | UploadFailed string

fun message :: "error \<Rightarrow> string" where
  "message NoScenes = ''No scenes provided''"
| "message NoNarrationUrl = ''No narration_url provided''"
| "message NoB2Path = ''No b2_path provided''"
| "message (FsError m) = m"
| "message (DownloadFailed m) = m"
| "message (FFmpegFailed label stderr) = ''FFmpeg failed ('' @ label @ ''): '' @ stderr"
| "message NoOutputFile = ''FFmpeg produced no output file''"
| "message (OutputTooSmall n) = ''Output file suspiciously small: '' @ show_nat n @ '' bytes''"
| "message (UploadFailed m) = m"

datatype body =
    CompleteBody string jsnum nat
  | ErrorBody string
  | BusyBody string

type_synonym response = "nat \<times> body"

record clip_detail =
  scene_no :: nat
  source_duration :: jsnum
  target_duration :: rat
  was_padded :: bool

datatype step =
    ValidateStep nat
  | DownloadStep
  | PreprocessStep "clip_detail list"
  | AssemblyStep jsnum nat
  | UploadStep string
  | ErrorStep string

text \<open>\<open>log_request\<close> is \<open>req.body\<close>, which is \<open>None\<close> when the body is \<open>undefined\<close>.\<close>

record render_log =
  log_request :: "request option"
  steps :: "step list"
  ffmpeg_commands :: "(string \<times> string) list"
  result :: "body option"

datatype event =
    Mkdir string
  | Download string string
  | Exec string
  | WriteFile string string
  | Upload string string
  | WriteLog string render_log
  | WriteFailed string

record state =
  activeRenders :: int
  events :: "event list"

type_synonym jstate = "render_log \<times> state"

definition emit :: "event list \<Rightarrow> jstate \<Rightarrow> jstate" where
  "emit evs js = (fst js, (snd js)\<lparr>events := events (snd js) @ evs\<rparr>)"

definition push_step :: "step \<Rightarrow> jstate \<Rightarrow> jstate" where
  "push_step st js = ((fst js)\<lparr>steps := steps (fst js) @ [st]\<rparr>, snd js)"

definition push_command :: "string \<Rightarrow> string \<Rightarrow> jstate \<Rightarrow> jstate" where
  "push_command name cmd js =
     ((fst js)\<lparr>ffmpeg_commands := ffmpeg_commands (fst js) @ [(name, cmd)]\<rparr>, snd js)"

text \<open>
  What the outside world answers: the clock at acceptance, whether \<open>mkdirSync\<close> and
  \<open>writeFileSync\<close> throw for a path (and with which message), whether the awaited
  downloads were rejected, the outcome of every subprocess, the size of a file if it
  exists, and whether the storage call was rejected.
\<close>

datatype exec_result = ExecOk | ExecFailed "string option"

record env =
  dirname :: string
  now :: nat
  mkdir_error :: "string \<Rightarrow> string option"
  write_error :: "string \<Rightarrow> string option"
  download_error :: "string option"
  ffprobe :: "string \<Rightarrow> jsnum option"
  ffmpeg :: "string \<Rightarrow> exec_result"
  file_size :: "string \<Rightarrow> nat option"
  upload_error :: "string option"
  b2_public_url :: string

definition MAX_CONCURRENT_RENDERS :: int where
  "MAX_CONCURRENT_RENDERS = 2"

definition show_int :: "int \<Rightarrow> string" where
  "show_int i = (if i < 0 then ''-'' @ show_nat (nat (- i)) else show_nat (nat i))"

section \<open>Helpers\<close>

definition runFFmpeg :: "env \<Rightarrow> string \<Rightarrow> string \<Rightarrow> jstate \<Rightarrow> jstate \<times> (error + string)" where
  "runFFmpeg e args label js =
     (let cmd = ''ffmpeg '' @ args;
          js = emit [Exec cmd] js
      in case ffmpeg e cmd of
           ExecOk \<Rightarrow> (js, Inr cmd)
         | ExecFailed err \<Rightarrow>
             (let stderr = (case err of
                              Some out \<Rightarrow> drop (length out - 500) out
                            | None \<Rightarrow> ''no stderr'')
              in (js, Inl (FFmpegFailed label stderr))))"

text \<open>\<open>probeDuration\<close>: the command it runs, the number it returns (0 when the
  subprocess fails), and the two together.\<close>

definition probe_command :: "string \<Rightarrow> string" where
  \<open>probe_command filePath =
     ''ffprobe -v error -show_entries format=duration -of csv=p=0 "'' @ filePath @ ''"''\<close>

definition probed :: "env \<Rightarrow> string \<Rightarrow> jsnum" where
  "probed e filePath =
     (case ffprobe e (probe_command filePath) of Some d \<Rightarrow> d | None \<Rightarrow> Num 0)"

definition probeDuration :: "env \<Rightarrow> string \<Rightarrow> jstate \<Rightarrow> jstate \<times> jsnum" where
  "probeDuration e filePath js = (emit [Exec (probe_command filePath)] js, probed e filePath)"

text \<open>\<open>writeRenderLog\<close> returns the message of the error \<open>writeFileSync\<close> threw, if it
  threw.\<close>

definition logPath :: "env \<Rightarrow> string \<Rightarrow> string" where
  "logPath e generationId =
     path_join (path_join (dirname e) ''render_logs'') (''renderlog_'' @ generationId @ ''.json'')"

definition writeRenderLog :: "env \<Rightarrow> string \<Rightarrow> jstate \<Rightarrow> jstate \<times> string option" where
  "writeRenderLog e generationId js =
     (case write_error e (logPath e generationId) of
        None \<Rightarrow> (emit [WriteLog (logPath e generationId) (fst js)] js, None)
      | Some m \<Rightarrow> (emit [WriteFailed (logPath e generationId)] js, Some m))"

section \<open>handleRender\<close>

definition validate :: "request \<Rightarrow> error option" where
  "validate req =
     (if (case scenes req of None \<Rightarrow> True | Some scs \<Rightarrow> length scs = 0) then Some NoScenes
      else if \<not> truthy_str (narration_url req) then Some NoNarrationUrl
      else if \<not> truthy_str (b2_path req) then Some NoB2Path
      else None)"

text \<open>The paths of the clip of scene \<open>i\<close>, as downloaded and as processed.\<close>

definition clipInputPath :: "string \<Rightarrow> nat \<Rightarrow> string" where
  "clipInputPath tempDir i = path_join (path_join tempDir ''clips'') (padded i @ ''.mp4'')"

definition clipOutputPath :: "string \<Rightarrow> nat \<Rightarrow> string" where
  "clipOutputPath tempDir i = path_join (path_join tempDir ''processed'') (padded i @ ''.mp4'')"

text \<open>Step 1: every download is started (the promises are created) before any is awaited.\<close>

definition start_downloads :: "request \<Rightarrow> string \<Rightarrow> jstate \<Rightarrow> jstate" where
  "start_downloads req tempDir js =
     (let downloads = map (\<lambda>(i, sc). Download (video_url sc) (clipInputPath tempDir i))
                        (enumerate 0 (the (scenes req)));
          narrationPath = path_join tempDir ''narration.mp3'';
          downloads = downloads @ [Download (the (narration_url req)) narrationPath];
          downloads = downloads @
            (if has_music req
             then map (\<lambda>(mp, seg). Download (music_url seg) mp)
                    (zip (musicPaths tempDir req) (the (music_segments req)))
             else []);
          captionsPath = path_join tempDir ''captions.srt'';
          downloads = downloads @
            (if hasCaptions req then [Download (the (caption_file_url req)) captionsPath]
             else [])
      in emit downloads js)"

text \<open>The \<open>try\<close> block up to \<open>await Promise.all(downloads)\<close>.\<close>

definition begin_job :: "env \<Rightarrow> request \<Rightarrow> string \<Rightarrow> jstate \<Rightarrow> jstate \<times> error option" where
  "begin_job e req tempDir js =
     (case validate req of
        Some err \<Rightarrow> (js, Some err)
      | None \<Rightarrow>
          (let clipsDir = path_join tempDir ''clips'';
               processedDir = path_join tempDir ''processed'';
               js = push_step (ValidateStep (length (the (scenes req)))) js;
               js = emit [Mkdir clipsDir] js
           in case mkdir_error e clipsDir of
                Some m \<Rightarrow> (js, Some (FsError m))
              | None \<Rightarrow>
                  (let js = emit [Mkdir processedDir] js
                   in case mkdir_error e processedDir of
                        Some m \<Rightarrow> (js, Some (FsError m))
                      | None \<Rightarrow> (start_downloads req tempDir js, None))))"

text \<open>Step 2: the loop over the scenes, from index \<open>i\<close> on.\<close>

fun preprocess ::
  "numops \<Rightarrow> env \<Rightarrow> string \<Rightarrow> nat \<Rightarrow> scene list \<Rightarrow> clip_detail list \<Rightarrow> jstate \<Rightarrow>
   jstate \<times> (error + clip_detail list)" where
  "preprocess ops e tempDir i [] clipDetails js = (js, Inr clipDetails)"
| "preprocess ops e tempDir i (sc # rest) clipDetails js =
     (let inputPath = clipInputPath tempDir i;
          outputPath = clipOutputPath tempDir i;
          targetDuration = duration sc;
          (js, sourceDuration) = probeDuration e inputPath js
      in case runFFmpeg e (clip_args ops inputPath outputPath sourceDuration targetDuration)
                (clip_label ops i sourceDuration targetDuration) js of
           (js, Inl err) \<Rightarrow> (js, Inl err)
         | (js, Inr cmd) \<Rightarrow>
             (let clipDetails = clipDetails @
                    [\<lparr>scene_no = i + 1, source_duration = sourceDuration,
                      target_duration = targetDuration,
                      was_padded = needsPadding sourceDuration targetDuration\<rparr>];
                  js = push_command (''clip_'' @ padded i) cmd js
              in preprocess ops e tempDir (i + 1) rest clipDetails js))"

definition concatContent :: "string \<Rightarrow> scene list \<Rightarrow> string" where
  "concatContent tempDir scs =
     concat (map (\<lambda>(i, sc). ''file '' @ sq @ clipOutputPath tempDir i @ sq @ [CHR 0x0A])
               (enumerate 0 scs))"

text \<open>From the resolved downloads to the call of \<open>uploadToB2\<close>: steps 2 to 4, the
  checks on the output file, and the start of the upload.\<close>

definition after_downloads ::
  "numops \<Rightarrow> env \<Rightarrow> request \<Rightarrow> string \<Rightarrow> jstate \<Rightarrow> jstate \<times> (error + nat \<times> jsnum)" where
  "after_downloads ops e req tempDir js =
     (let js = push_step DownloadStep js
      in case preprocess ops e tempDir 0 (the (scenes req)) [] js of
           (js, Inl err) \<Rightarrow> (js, Inl err)
         | (js, Inr clipDetails) \<Rightarrow>
             (let js = push_step (PreprocessStep clipDetails) js;
                  concatListPath = path_join tempDir ''concat.txt''
              in case write_error e concatListPath of
                   Some m \<Rightarrow> (emit [WriteFailed concatListPath] js, Inl (FsError m))
                 | None \<Rightarrow>
                     (let js = emit [WriteFile concatListPath
                                       (concatContent tempDir (the (scenes req)))] js;
                          outputPath = path_join tempDir ''output.mp4''
                      in case runFFmpeg e (finalArgs ops req tempDir) ''final assembly'' js of
                           (js, Inl err) \<Rightarrow> (js, Inl err)
                         | (js, Inr assemblyCmd) \<Rightarrow>
                             (let js = push_command ''assembly'' assemblyCmd js
                              in case file_size e outputPath of
                                   None \<Rightarrow> (js, Inl NoOutputFile)
                                 | Some outputSize \<Rightarrow>
                                     if outputSize < 1000
                                     then (js, Inl (OutputTooSmall outputSize))
                                     else (let (js, outputDuration) =
                                                 probeDuration e outputPath js;
                                               js = push_step
                                                      (AssemblyStep outputDuration outputSize) js;
                                               js = emit [Upload outputPath (the (b2_path req))] js
                                           in (js, Inr (outputSize, outputDuration)))))))"

text \<open>From the resolved upload to the response: the end of step 5 and step 6. The log
  is written before the response is sent.\<close>

definition after_upload ::
  "env \<Rightarrow> request \<Rightarrow> string \<Rightarrow> nat \<Rightarrow> jsnum \<Rightarrow> jstate \<Rightarrow> jstate \<times> (error + response)" where
  "after_upload e req genId outputSize outputDuration js =
     (let b2Url = b2_public_url e @ ''/'' @ the (b2_path req);
          js = push_step (UploadStep b2Url) js;
          res = CompleteBody b2Url outputDuration outputSize;
          js = ((fst js)\<lparr>result := Some res\<rparr>, snd js)
      in case writeRenderLog e genId js of
           (js, Some m) \<Rightarrow> (js, Inl (FsError m))
         | (js, None) \<Rightarrow> (js, Inr (200, res)))"

text \<open>The \<open>catch\<close> clause writes the log and then answers. When the write throws, the
  error leaves the clause and no response is sent.\<close>

definition catch_block :: "env \<Rightarrow> string \<Rightarrow> error \<Rightarrow> jstate \<Rightarrow> jstate \<times> response option" where
  "catch_block e genId err js =
     (let errorResult = ErrorBody (message err);
          js = ((fst js)\<lparr>result := Some errorResult\<rparr>, snd js);
          js = push_step (ErrorStep (message err)) js
      in case writeRenderLog e genId js of
           (js, Some m) \<Rightarrow> (js, None)
         | (js, None) \<Rightarrow> (js, Some (500, errorResult)))"

definition finally_block :: "state \<Rightarrow> state" where
  "finally_block s = s\<lparr>activeRenders := activeRenders s - 1\<rparr>"

definition try_block ::
  "numops \<Rightarrow> env \<Rightarrow> request \<Rightarrow> string \<Rightarrow> string \<Rightarrow> jstate \<Rightarrow> jstate \<times> (error + response)" where
  "try_block ops e req genId tempDir js =
     (case begin_job e req tempDir js of
        (js, Some err) \<Rightarrow> (js, Inl err)
      | (js, None) \<Rightarrow>
          (case download_error e of
             Some m \<Rightarrow> (js, Inl (DownloadFailed m))
           | None \<Rightarrow>
               (case after_downloads ops e req tempDir js of
                  (js, Inl err) \<Rightarrow> (js, Inl err)
                | (js, Inr (outputSize, outputDuration)) \<Rightarrow>
                    (case upload_error e of
                       Some m \<Rightarrow> (js, Inl (UploadFailed m))
                     | None \<Rightarrow> after_upload e req genId outputSize outputDuration js))))"

definition busy_message :: "int \<Rightarrow> string" where
  "busy_message active =
     ''Server busy: '' @ show_int active @ ''/'' @ show_int MAX_CONCURRENT_RENDERS @
     '' renders active. Try again later.''"

text \<open>\<open>genId\<close> is \<open>generation_id || startTime\<close>; \<open>tempDir\<close> and the paths below it are
  built from its text.\<close>

definition genId :: "env \<Rightarrow> request \<Rightarrow> jsval" where
  "genId e req =
     (case generation_id req of
        Some v \<Rightarrow> if truthy_val v then v else JNum (of_nat (now e))
      | None \<Rightarrow> JNum (of_nat (now e)))"

definition tempDir :: "string \<Rightarrow> string" where
  "tempDir gid = path_join ''/tmp'' (''render-'' @ gid)"

definition outputPath :: "string \<Rightarrow> string" where
  "outputPath gid = path_join (tempDir gid) ''output.mp4''"

definition new_log :: "request option \<Rightarrow> render_log" where
  "new_log b = \<lparr>log_request = b, steps = [], ffmpeg_commands = [], result = None\<rparr>"

text \<open>The \<open>try\<close> statement with its \<open>catch\<close> clause.\<close>

definition try_catch ::
  "numops \<Rightarrow> env \<Rightarrow> request \<Rightarrow> string \<Rightarrow> jstate \<Rightarrow> jstate \<times> response option" where
  "try_catch ops e req gid js =
     (case try_block ops e req gid (tempDir gid) js of
        (js, Inr resp) \<Rightarrow> (js, Some resp)
      | (js, Inl err) \<Rightarrow> catch_block e gid err js)"

text \<open>
  \<open>handleRender\<close>: the admission check, the increment, the destructuring of \<open>req.body\<close>,
  the paths, and then the \<open>try\<close> statement with its \<open>finally\<close> clause. The body is \<open>None\<close>
  when \<open>req.body\<close> is \<open>undefined\<close>. Destructuring \<open>undefined\<close> throws, and so does the
  template literal that builds \<open>tempDir\<close> when \<open>genId\<close> has no text; both come after the
  increment and before \<open>try\<close>, so the call ends there, without a response of its own and
  without running the \<open>finally\<close> clause.
\<close>

definition handleRender ::
  "numops \<Rightarrow> env \<Rightarrow> request option \<Rightarrow> state \<Rightarrow> state \<times> response option" where
  "handleRender ops e b s =
     (if activeRenders s \<ge> MAX_CONCURRENT_RENDERS
      then (s, Some (503, BusyBody (busy_message (activeRenders s))))
      else (let s = s\<lparr>activeRenders := activeRenders s + 1\<rparr>;
                renderLog = new_log b
            in case b of
                 None \<Rightarrow> (s, None)
               | Some req \<Rightarrow>
                   (case template ops (genId e req) of
                      None \<Rightarrow> (s, None)
                    | Some gid \<Rightarrow>
                        (let (js, resp) = try_catch ops e req gid (renderLog, s)
                         in (finally_block (snd js), resp)))))"

text \<open>The upload events among a list of events.\<close>

fun is_upload :: "event \<Rightarrow> bool" where
  "is_upload (Upload p k) = True"
| "is_upload _ = False"

section \<open>Jobs in flight\<close>

text \<open>
  \<open>handleRender\<close> is an \<open>async\<close> function with two \<open>await\<close>s. Up to the first one, between
  the two, and after the second one it runs without interruption; while it waits, other
  requests are served. A job that waits keeps its request, the text of its identifier
  and its log, and, once the output is validated, the size and duration of the output.
  \<open>leaked\<close> counts the calls that ended between the increment and the \<open>try\<close> statement.
\<close>

datatype job =
    AwaitDownloads request string render_log
  | AwaitUpload request string render_log nat jsnum

record system =
  server :: state
  jobs :: "job list"
  responses :: "response list"
  leaked :: nat

definition finish :: "nat \<Rightarrow> jstate \<times> response option \<Rightarrow> system \<Rightarrow> system" where
  "finish k r sys =
     sys\<lparr>server := finally_block (snd (fst r)),
         jobs := take k (jobs sys) @ drop (Suc k) (jobs sys),
         responses := responses sys @ (case snd r of Some resp \<Rightarrow> [resp] | None \<Rightarrow> [])\<rparr>"

text \<open>A request arrives: \<open>handleRender\<close> runs up to \<open>await Promise.all(downloads)\<close>, or to
  its end if it is refused, throws before \<open>try\<close>, or fails before the downloads.\<close>

definition arrive :: "numops \<Rightarrow> env \<Rightarrow> request option \<Rightarrow> system \<Rightarrow> system" where
  "arrive ops e b sys =
     (let s = server sys
      in if activeRenders s \<ge> MAX_CONCURRENT_RENDERS
         then sys\<lparr>responses := responses sys @ [(503, BusyBody (busy_message (activeRenders s)))]\<rparr>
         else (let s = s\<lparr>activeRenders := activeRenders s + 1\<rparr>
               in case b of
                    None \<Rightarrow> sys\<lparr>server := s, leaked := leaked sys + 1\<rparr>
                  | Some req \<Rightarrow>
                      (case template ops (genId e req) of
                         None \<Rightarrow> sys\<lparr>server := s, leaked := leaked sys + 1\<rparr>
                       | Some gid \<Rightarrow>
                           (case begin_job e req (tempDir gid) (new_log b, s) of
                              (js, Some err) \<Rightarrow>
                                finish (length (jobs sys)) (catch_block e gid err js) sys
                            | (js, None) \<Rightarrow>
                                sys\<lparr>server := snd js,
                                    jobs := jobs sys @ [AwaitDownloads req gid (fst js)]\<rparr>))))"

text \<open>The promise that job \<open>k\<close> waits for is settled, with the outcome the outside world
  \<open>e\<close> gives: the job runs to its next \<open>await\<close> or to its end.\<close>

definition resume :: "numops \<Rightarrow> env \<Rightarrow> nat \<Rightarrow> system \<Rightarrow> system" where
  "resume ops e k sys =
     (if k \<ge> length (jobs sys) then sys
      else case jobs sys ! k of
             AwaitDownloads req gid renderLog \<Rightarrow>
               (case download_error e of
                  Some m \<Rightarrow>
                    finish k (catch_block e gid (DownloadFailed m) (renderLog, server sys)) sys
                | None \<Rightarrow>
                    (case after_downloads ops e req (tempDir gid) (renderLog, server sys) of
                       (js, Inl err) \<Rightarrow> finish k (catch_block e gid err js) sys
                     | (js, Inr (outputSize, outputDuration)) \<Rightarrow>
                         sys\<lparr>server := snd js,
                             jobs := (jobs sys)
                               [k := AwaitUpload req gid (fst js) outputSize outputDuration]\<rparr>))
           | AwaitUpload req gid renderLog outputSize outputDuration \<Rightarrow>
               (case upload_error e of
                  Some m \<Rightarrow>
                    finish k (catch_block e gid (UploadFailed m) (renderLog, server sys)) sys
                | None \<Rightarrow>
                    (case after_upload e req gid outputSize outputDuration
                            (renderLog, server sys) of
                       (js, Inl err) \<Rightarrow> finish k (catch_block e gid err js) sys
                     | (js, Inr resp) \<Rightarrow> finish k (js, Some resp) sys)))"

definition start :: system where
  "start = \<lparr>server = \<lparr>activeRenders = 0, events = []\<rparr>, jobs = [], responses = [],
            leaked = 0\<rparr>"

inductive reachable :: "system \<Rightarrow> bool" where
  init: "reachable start"
| arrival: "reachable sys \<Longrightarrow> reachable (arrive ops e b sys)"
| settled: "reachable sys \<Longrightarrow> reachable (resume ops e k sys)"

section \<open>Concrete inputs\<close>

text \<open>A two-scene request without music or captions, one music segment, an outside
  world in which every step succeeds, a server with no active render, and a request
  whose \<open>generation_id\<close> is the JSON object \<open>{"toString": 0}\<close>.\<close>

definition ex_scenes :: "scene list" where
  "ex_scenes = [\<lparr>video_url = ''https://cdn.example/s1.mp4'', duration = 5\<rparr>,
                \<lparr>video_url = ''https://cdn.example/s2.mp4'', duration = 4\<rparr>]"

definition ex_segment :: music_segment where
  "ex_segment = \<lparr>music_url = ''https://cdn.example/m1.mp3'', start_time = Some (1 / 4),
                  music_duration = Some 20, fade_in = Some 1, fade_out = Some 2\<rparr>"

definition ex_request :: request where
  "ex_request = \<lparr>scenes = Some ex_scenes, narration_url = Some ''https://cdn.example/n.mp3'',
                  music_segments = None, music_volume = None, caption_file_url = None,
                  caption_style = None, generation_id = Some (JStr ''g1''),
                  b2_path = Some ''videos/g1.mp4'', b2_bucket = None\<rparr>"

definition ex_env :: env where
  "ex_env = \<lparr>dirname = ''/opt/ffmpeg-api'', now = 17, mkdir_error = (\<lambda>p. None),
              write_error = (\<lambda>p. None), download_error = None,
              ffprobe = (\<lambda>cmd. Some (Num 3)), ffmpeg = (\<lambda>cmd. ExecOk),
              file_size = (\<lambda>p. Some 1000), upload_error = None,
              b2_public_url = ''https://files.example''\<rparr>"

definition idle :: state where
  "idle = \<lparr>activeRenders = 0, events = []\<rparr>"

definition ex_unprintable :: request where
  "ex_unprintable = ex_request\<lparr>generation_id := Some (JObj [(''toString'', JNum 0)])\<rparr>"

section \<open>Properties of the builders\<close>

lemma is_double_0: "is_double 0"
  by code_simp

lemma is_double_default_fade_out_start: "is_double (57 / 2)"
  by code_simp

lemma fround_double: "is_double q \<Longrightarrow> fround ops q = Num q"
  by (simp add: fround_def)

text \<open>
  Two requests written with decimal fractions. A clip probed at 1.4 seconds for a target
  of 4.4: the doubles nearest to the two numbers differ by 3.0000000000000004, so the
  clone lasts 5 seconds. A segment starting at 0.5005 seconds: the product of the
  nearest double with 1000 rounds to the double 500.49999999999994, so the delay is 500
  milliseconds.
\<close>

lemma pad_seconds_of_doubles:
  "nearest_double (14 / 10) = Num (3152519739159347 / 2251799813685248) \<and>
   nearest_double (44 / 10) = Num (2476979795053773 / 562949953421312) \<and>
   js_sub decimal_ops (Num (2476979795053773 / 562949953421312))
     (Num (3152519739159347 / 2251799813685248)) =
     Num (6755399441055745 / 2251799813685248) \<and>
   clip_vf decimal_ops (Num (3152519739159347 / 2251799813685248))
     (2476979795053773 / 562949953421312) =
     base_vf @ '',tpad=stop_mode=clone:stop_duration=5''"
  by code_simp

lemma delay_of_doubles:
  "nearest_double (5005 / 10000) = Num (2254051613498933 / 4503599627370496) \<and>
   js_mul decimal_ops (2254051613498933 / 4503599627370496) 1000 =
     Num (8804889115230207 / 17592186044416) \<and>
   delayMs decimal_ops (ex_segment\<lparr>start_time := Some (2254051613498933 / 4503599627370496)\<rparr>) =
     Num 500"
  by code_simp

lemma music_chain_eq:
  "music_chain ops v i seg =
     ''['' @ show_nat (i + 2) @ '':a]'' @ aformat @ '',volume='' @ num_str ops v @
     '',afade=t=in:d='' @ num_str ops (fadeIn seg) @
     '',afade=t=out:st='' @ jsnum_str ops (fadeOutStart ops seg) @ '':d='' @
     num_str ops (fadeOut seg) @
     (if js_lt (Num 0) (delayMs ops seg)
      then '',adelay='' @ jsnum_str ops (delayMs ops seg) @ ''|'' @
           jsnum_str ops (delayMs ops seg)
      else []) @
     music_label i"
  by (simp add: music_chain_def Let_def)

lemma map_enumerate_upt:
  "map (\<lambda>(i, x). f i x) (enumerate 0 xs) = map (\<lambda>i. f i (xs ! i)) [0..<length xs]"
  by (rule nth_equalityI) (simp_all add: nth_enumerate_eq)

lemma filterParts_music:
  assumes "music_segments req = Some segs" and "segs \<noteq> []"
  shows "filterParts ops req =
           nar_branch # map (\<lambda>i. music_chain ops (vol req) i (segs ! i)) [0..<length segs]"
  using assms by (simp add: filterParts_def has_music_def map_enumerate_upt)







text \<open>
  C6 (as amended). The branch of every music segment applies, in this order: the format
  to fltp/44100/stereo, the shared gain \<open>vol\<close>, a fade-in of \<open>fade_in\<close> seconds, a
  fade-out of \<open>fade_out\<close> seconds starting at \<open>max(0, duration - fade_out)\<close>, and a delay
  of \<open>round(start_time * 1000)\<close> milliseconds on both channels if and only if that
  rounded number of milliseconds is greater than zero. Each field is read through \<open>||\<close>
  with its default (\<open>js_or\<close>), which is the field itself when it is given and non-zero.
  The difference and the product are those of doubles: the exact value when that is a
  double, its rounding otherwise; \<open>Math.round\<close> and \<open>Math.max\<close> are exact.
\<close>

theorem music_branch:
  assumes "music_segments req = Some segs" and "i < length segs"
  shows "filterParts ops req ! Suc i =
     ''['' @ show_nat (i + 2) @ '':a]'' @
     ''aformat=sample_fmts=fltp:sample_rates=44100:channel_layouts=stereo'' @
     '',volume='' @ num_str ops (vol req) @
     '',afade=t=in:d='' @ num_str ops (js_or (fade_in (segs ! i)) 2) @
     '',afade=t=out:st='' @
       jsnum_str ops
         (js_max (Num 0)
            (js_sub ops (Num (js_or (music_duration (segs ! i)) 30))
               (Num (js_or (fade_out (segs ! i)) (3 / 2))))) @
     '':d='' @ num_str ops (js_or (fade_out (segs ! i)) (3 / 2)) @
     (if js_lt (Num 0) (js_round (js_mul ops (js_or (start_time (segs ! i)) 0) 1000))
      then '',adelay='' @
           jsnum_str ops (js_round (js_mul ops (js_or (start_time (segs ! i)) 0) 1000)) @
           ''|'' @
           jsnum_str ops (js_round (js_mul ops (js_or (start_time (segs ! i)) 0) 1000))
      else []) @
     ''[m'' @ show_nat i @ '']'' \<and>
     (\<forall>x. x \<noteq> 0 \<longrightarrow> js_or (Some x) d = x) \<and> js_or (Some 0) d = d \<and> js_or None d = d \<and>
     (\<forall>a b. is_double (a - b) \<longrightarrow> js_sub ops (Num a) (Num b) = Num (a - b)) \<and>
     (\<forall>a b. \<not> is_double (a - b) \<longrightarrow> js_sub ops (Num a) (Num b) = round_double ops (a - b)) \<and>
     (\<forall>a b. is_double (a * b) \<longrightarrow> js_mul ops a b = Num (a * b)) \<and>
     (\<forall>a b. \<not> is_double (a * b) \<longrightarrow> js_mul ops a b = round_double ops (a * b)) \<and>
     (\<forall>a. js_round (Num a) = Num (of_int \<lfloor>a + 1 / 2\<rfloor>)) \<and>
     (\<forall>a b. js_max (Num a) (Num b) = Num (max a b)) \<and>
     (\<forall>a b. js_lt (Num a) (Num b) = (a < b))"
proof -
  from assms have ne: "segs \<noteq> []" by auto
  have "filterParts ops req ! Suc i = music_chain ops (vol req) i (segs ! i)"
    using assms(2) by (simp add: filterParts_music[OF assms(1) ne])
  then show ?thesis
    by (simp add: music_chain_eq fadeOutStart_def fadeIn_def fadeOut_def segDuration_def
        delayMs_def aformat_def music_label_def js_or_def truthy_num_def fround_def
        js_mul_def round_def)
qed

theorem music_branch_witness:
  "music_segments (ex_request\<lparr>music_segments := Some [ex_segment]\<rparr>) = Some [ex_segment] \<and>
   0 < length [ex_segment] \<and>
   filterParts decimal_ops (ex_request\<lparr>music_segments := Some [ex_segment]\<rparr>) ! Suc 0 =
     ''[2:a]aformat=sample_fmts=fltp:sample_rates=44100:channel_layouts=stereo,volume=0.08,afade=t=in:d=1,afade=t=out:st=18:d=2,adelay=250|250[m0]''"
proof -
  have a: "music_segments (ex_request\<lparr>music_segments := Some [ex_segment]\<rparr>) = Some [ex_segment]"
    "0 < length [ex_segment]"
    by simp_all
  note t = music_branch [OF a, of decimal_ops, THEN conjunct1]
  have e: "filterParts decimal_ops (ex_request\<lparr>music_segments := Some [ex_segment]\<rparr>) ! Suc 0 =
     ''[2:a]aformat=sample_fmts=fltp:sample_rates=44100:channel_layouts=stereo,volume=0.08,afade=t=in:d=1,afade=t=out:st=18:d=2,adelay=250|250[m0]''"
    unfolding t by code_simp
  show ?thesis
    by (intro conjI a e)
qed

text \<open>
  C6 as stated fails: a segment that starts \<open>1/16384\<close> of a second in (a double, about
  0.06 ms) has a \<open>start_time\<close> greater than zero, yet its delay rounds to 0 ms and the
  branch gets no \<open>adelay\<close> stage.
\<close>

theorem small_start_time_no_delay:
  "start_time (ex_segment\<lparr>start_time := Some (1 / 16384)\<rparr>) = Some (1 / 16384) \<and>
   is_double (1 / 16384) \<and> (0::rat) < 1 / 16384 \<and>
   delayMs decimal_ops (ex_segment\<lparr>start_time := Some (1 / 16384)\<rparr>) = Num 0 \<and>
   filterParts decimal_ops
     (ex_request\<lparr>music_segments := Some [ex_segment\<lparr>start_time := Some (1 / 16384)\<rparr>]\<rparr>) ! Suc 0 =
     ''[2:a]aformat=sample_fmts=fltp:sample_rates=44100:channel_layouts=stereo,volume=0.08,afade=t=in:d=1,afade=t=out:st=18:d=2[m0]''"
  by code_simp

text \<open>
  C9. A \<open>music_volume\<close> that is absent or zero gives the gain 0.08; the gain is never 0;
  and every music branch carries that gain in its \<open>volume\<close> stage, right after the format.
\<close>

theorem music_gain:
  "vol req \<noteq> 0 \<and>
   (music_volume req = None \<or> music_volume req = Some 0 \<longrightarrow> vol req = 8 / 100) \<and>
   (music_segments req = Some segs \<and> i < length segs \<longrightarrow>
      (\<exists>rest. filterParts ops req ! Suc i =
         ''['' @ show_nat (i + 2) @ '':a]'' @
         ''aformat=sample_fmts=fltp:sample_rates=44100:channel_layouts=stereo'' @
         '',volume='' @ num_str ops (vol req) @ rest))"
proof (intro conjI impI)
  show "vol req \<noteq> 0"
    by (cases "music_volume req") (simp_all add: vol_def js_or_def truthy_num_def)
  show "vol req = 8 / 100" if "music_volume req = None \<or> music_volume req = Some 0"
    using that by (auto simp add: vol_def js_or_def truthy_num_def)
  show "\<exists>rest. filterParts ops req ! Suc i =
         ''['' @ show_nat (i + 2) @ '':a]'' @
         ''aformat=sample_fmts=fltp:sample_rates=44100:channel_layouts=stereo'' @
         '',volume='' @ num_str ops (vol req) @ rest"
    if h: "music_segments req = Some segs \<and> i < length segs"
  proof -
    from h have ne: "segs \<noteq> []" by auto
    have "filterParts ops req ! Suc i = music_chain ops (vol req) i (segs ! i)"
      using h by (simp add: filterParts_music[OF _ ne])
    then show ?thesis
      by (simp add: music_chain_eq aformat_def)
  qed
qed

theorem music_gain_witness:
  "music_volume (ex_request\<lparr>music_volume := Some 0, music_segments := Some [ex_segment]\<rparr>) = Some 0 \<and>
   vol (ex_request\<lparr>music_volume := Some 0, music_segments := Some [ex_segment]\<rparr>) = 8 / 100 \<and>
   vol (ex_request\<lparr>music_volume := Some 0, music_segments := Some [ex_segment]\<rparr>) \<noteq> 0 \<and>
   filterParts decimal_ops
     (ex_request\<lparr>music_volume := Some 0, music_segments := Some [ex_segment]\<rparr>) ! Suc 0 =
     ''[2:a]aformat=sample_fmts=fltp:sample_rates=44100:channel_layouts=stereo,volume=0.08,afade=t=in:d=1,afade=t=out:st=18:d=2,adelay=250|250[m0]''"
proof -
  have "filterParts decimal_ops
     (ex_request\<lparr>music_volume := Some 0, music_segments := Some [ex_segment]\<rparr>) ! Suc 0 =
     ''[2:a]aformat=sample_fmts=fltp:sample_rates=44100:channel_layouts=stereo,volume=0.08,afade=t=in:d=1,afade=t=out:st=18:d=2,adelay=250|250[m0]''"
    by code_simp
  then show ?thesis
    using music_gain [of "ex_request\<lparr>music_volume := Some 0, music_segments := Some [ex_segment]\<rparr>"
        "[ex_segment]" 0 decimal_ops]
    by simp
qed

text \<open>
  C10. A field of a music segment that is absent or zero is replaced by its default:
  \<open>start_time\<close> by 0 (a delay of 0 ms), \<open>fade_in\<close> by 2, \<open>fade_out\<close> by 1.5 and
  \<open>duration\<close> by 30, so that the default fade-out starts at 28.5; with all four missing
  the branch is built from exactly these numbers and has no delay stage.
\<close>

theorem music_segment_defaults:
  "(\<not> truthy_num (start_time seg) \<longrightarrow> delayMs ops seg = Num 0) \<and>
   (\<not> truthy_num (fade_in seg) \<longrightarrow> fadeIn seg = 2) \<and>
   (\<not> truthy_num (fade_out seg) \<longrightarrow> fadeOut seg = 3 / 2) \<and>
   (\<not> truthy_num (music_duration seg) \<longrightarrow> segDuration seg = 30) \<and>
   (\<not> truthy_num (fade_out seg) \<and> \<not> truthy_num (music_duration seg) \<longrightarrow>
      fadeOutStart ops seg = Num (57 / 2)) \<and>
   (\<not> truthy_num (start_time seg) \<and> \<not> truthy_num (fade_in seg) \<and>
    \<not> truthy_num (fade_out seg) \<and> \<not> truthy_num (music_duration seg) \<longrightarrow>
      music_chain ops v i seg =
        ''['' @ show_nat (i + 2) @ '':a]'' @ aformat @ '',volume='' @ num_str ops v @
        '',afade=t=in:d='' @ num_str ops 2 @
        '',afade=t=out:st='' @ num_str ops (57 / 2) @ '':d='' @ num_str ops (3 / 2) @
        music_label i)"
proof -
  have d: "\<not> truthy_num (start_time seg) \<Longrightarrow> delayMs ops seg = Num 0"
    by (simp add: delayMs_def js_or_def js_mul_def fround_double[OF is_double_0])
  have f: "\<not> truthy_num (fade_out seg) \<Longrightarrow> \<not> truthy_num (music_duration seg) \<Longrightarrow>
           fadeOutStart ops seg = Num (57 / 2)"
    using fround_double[OF is_double_default_fade_out_start, of ops]
    by (simp add: fadeOutStart_def segDuration_def fadeOut_def js_or_def)
  show ?thesis
    using d f
    by (simp add: music_chain_eq fadeIn_def fadeOut_def segDuration_def js_or_def)
qed

theorem music_segment_defaults_witness:
  "\<not> truthy_num None \<and> \<not> truthy_num (Some 0) \<and>
   music_chain decimal_ops (8 / 100) 0
     \<lparr>music_url = ''https://cdn.example/m1.mp3'', start_time = None, music_duration = Some 0,
      fade_in = None, fade_out = Some 0\<rparr> =
     ''[2:a]aformat=sample_fmts=fltp:sample_rates=44100:channel_layouts=stereo,volume=0.08,afade=t=in:d=2,afade=t=out:st=28.5:d=1.5[m0]''"
proof -
  have f: "\<not> truthy_num None" "\<not> truthy_num (Some 0)"
    by (simp_all add: truthy_num_def)
  have "music_chain decimal_ops (8 / 100) 0
     \<lparr>music_url = ''https://cdn.example/m1.mp3'', start_time = None, music_duration = Some 0,
      fade_in = None, fade_out = Some 0\<rparr> =
        ''['' @ show_nat (0 + 2) @ '':a]'' @ aformat @ '',volume='' @ num_str decimal_ops (8 / 100) @
        '',afade=t=in:d='' @ num_str decimal_ops 2 @
        '',afade=t=out:st='' @ num_str decimal_ops (57 / 2) @ '':d='' @ num_str decimal_ops (3 / 2) @
        music_label 0"
    using music_segment_defaults [of "\<lparr>music_url = ''https://cdn.example/m1.mp3'', start_time = None,
       music_duration = Some 0, fade_in = None, fade_out = Some 0\<rparr>" decimal_ops "8 / 100" 0] f
    by simp
  also have "\<dots> = ''[2:a]aformat=sample_fmts=fltp:sample_rates=44100:channel_layouts=stereo,volume=0.08,afade=t=in:d=2,afade=t=out:st=28.5:d=1.5[m0]''"
    by code_simp
  finally show ?thesis using f by simp
qed

section \<open>Properties of the caption style lookup\<close>

text \<open>The overlay is built exactly when a non-empty caption URL and a non-empty style
  other than \<open>none\<close> are given. The three presets resolve to their own parameters, and a
  name that is neither a preset nor a property of \<open>Object.prototype\<close> falls back to
  \<open>line_box\<close>.\<close>

lemma caption_overlay_iff:
  "(videoFilter req p \<noteq> []) = hasCaptions req"
  "hasCaptions req =
     (\<exists>u s. caption_file_url req = Some u \<and> u \<noteq> [] \<and> caption_style req = Some s \<and>
            s \<noteq> [] \<and> s \<noteq> ''none'')"
  by (auto simp add: videoFilter_def hasCaptions_def truthy_str_def Let_def split: option.splits)

lemma caption_style_presets:
  "getCaptionStyle ''just_text'' = PString just_text"
  "getCaptionStyle ''line_box'' = PString line_box"
  "getCaptionStyle ''word_box'' = PString word_box"
  by (simp_all add: getCaptionStyle_def get_prop_def styles_def just_text_def line_box_def
      word_box_def)

lemma caption_style_fallback:
  assumes "k \<notin> {''just_text'', ''line_box'', ''word_box''}" and "k \<notin> set object_prototype_keys"
  shows "getCaptionStyle k = PString line_box"
  using assms by (simp add: getCaptionStyle_def get_prop_def styles_def)

text \<open>
  C8 asks for the \<open>line_box\<close> parameters for every name that is not a preset. The lookup
  \<open>styles[styleName]\<close> also finds what the object literal inherits: for the style name
  \<open>constructor\<close> it returns the inherited function, which is truthy, so the fallback
  \<open>|| styles.line_box\<close> is not taken and the overlay is built with the function's text as
  its \<open>force_style\<close>.
\<close>

theorem caption_style_constructor:
  \<open>hasCaptions (ex_request\<lparr>caption_file_url := Some ''https://cdn.example/c.srt'',
                            caption_style := Some ''constructor''\<rparr>) \<and>
   getCaptionStyle ''constructor'' = PInherited ''constructor'' \<and>
   getCaptionStyle ''constructor'' \<noteq> PString line_box \<and>
   videoFilter (ex_request\<lparr>caption_file_url := Some ''https://cdn.example/c.srt'',
                            caption_style := Some ''constructor''\<rparr>)
     ''/tmp/render-g1/captions.srt'' =
     ''-vf "subtitles='' @ sq @ ''/tmp/render-g1/captions.srt'' @ sq @ '':force_style='' @ sq @
     ''function Object() { [native code] }'' @ sq @ ''"''\<close>
  by code_simp

section \<open>Properties of the job\<close>

text \<open>What each part of the job does to the counter and to the uploads, and what it
  returns.\<close>

lemma emit_simps:
  "fst (emit evs js) = fst js"
  "activeRenders (snd (emit evs js)) = activeRenders (snd js)"
  "events (snd (emit evs js)) = events (snd js) @ evs"
  by (simp_all add: emit_def)

lemma push_step_simps:
  "snd (push_step st js) = snd js"
  "steps (fst (push_step st js)) = steps (fst js) @ [st]"
  by (simp_all add: push_step_def)

lemma push_command_simps:
  "snd (push_command n c js) = snd js"
  "steps (fst (push_command n c js)) = steps (fst js)"
  by (simp_all add: push_command_def)

lemma runFFmpeg_result:
  assumes "runFFmpeg e args label js = (js', r)"
  shows "fst js' = fst js" and "activeRenders (snd js') = activeRenders (snd js)"
    and "events (snd js') = events (snd js) @ [Exec (''ffmpeg '' @ args)]"
    and "ffmpeg e (''ffmpeg '' @ args) = ExecOk \<Longrightarrow> r = Inr (''ffmpeg '' @ args)"
    and "ffmpeg e (''ffmpeg '' @ args) \<noteq> ExecOk \<Longrightarrow> \<exists>stderr. r = Inl (FFmpegFailed label stderr)"
  using assms by (auto simp add: runFFmpeg_def Let_def emit_def split: exec_result.splits)

lemma probeDuration_result:
  assumes "probeDuration e p js = (js', d)"
  shows "fst js' = fst js" and "activeRenders (snd js') = activeRenders (snd js)"
    and "events (snd js') = events (snd js) @ [Exec (probe_command p)]"
    and "d = probed e p"
  using assms by (auto simp add: probeDuration_def emit_def)

text \<open>The loop runs, scene after scene, the probe of the downloaded clip and then
  \<open>ffmpeg\<close> on the arguments \<open>clip_args\<close> builds from the probed duration and the scene's
  target duration. It stops at the first command that fails; otherwise it returns one
  detail per scene.\<close>

lemma map_upt_Suc:
  "map f [0..<Suc n] = f 0 # map (\<lambda>k. f (Suc k)) [0..<n]"
  by (simp add: upt_conv_Cons map_Suc_upt[symmetric] del: upt_Suc)

lemma preprocess_events:
  assumes "preprocess ops e t i scs ds js = (js', r)"
  shows "\<exists>n\<le>length scs.
     events (snd js') = events (snd js) @
       concat (map (\<lambda>k. [Exec (probe_command (clipInputPath t (i + k))),
                         Exec (''ffmpeg '' @
                               clip_args ops (clipInputPath t (i + k)) (clipOutputPath t (i + k))
                                 (probed e (clipInputPath t (i + k))) (duration (scs ! k)))])
                 [0..<n]) \<and>
     activeRenders (snd js') = activeRenders (snd js) \<and>
     (case r of
        Inr ds' \<Rightarrow>
          n = length scs \<and>
          ds' = ds @ map (\<lambda>k. \<lparr>scene_no = i + k + 1,
                                source_duration = probed e (clipInputPath t (i + k)),
                                target_duration = duration (scs ! k),
                                was_padded = needsPadding (probed e (clipInputPath t (i + k)))
                                               (duration (scs ! k))\<rparr>)
                      [0..<length scs]
      | Inl err \<Rightarrow> 0 < n \<and> (\<exists>label stderr. err = FFmpegFailed label stderr))"
  using assms
proof (induction scs arbitrary: i ds js js' r)
  case Nil
  then show ?case by auto
next
  case (Cons sc rest)
  let ?inp = "clipInputPath t i"
  let ?out = "clipOutputPath t i"
  let ?d = "probed e ?inp"
  let ?js1 = "emit [Exec (probe_command ?inp)] js"
  let ?args = "clip_args ops ?inp ?out ?d (duration sc)"
  let ?label = "clip_label ops i ?d (duration sc)"
  obtain js2 r2 where run: "runFFmpeg e ?args ?label ?js1 = (js2, r2)"
    by (cases "runFFmpeg e ?args ?label ?js1")
  note run1 = runFFmpeg_result[OF run]
  have ev2: "events (snd js2) = events (snd js) @ [Exec (probe_command ?inp), Exec (''ffmpeg '' @ ?args)]"
    using run1(3) by (simp add: emit_simps)
  have ar2: "activeRenders (snd js2) = activeRenders (snd js)"
    using run1(2) by (simp add: emit_simps)
  show ?case
  proof (cases r2)
    case (Inl err)
    have fail: "\<exists>label stderr. err = FFmpegFailed label stderr"
      using run Inl by (auto simp add: runFFmpeg_def Let_def split: exec_result.splits)
    from Cons.prems run Inl have res: "js' = js2" "r = Inl err"
      by (simp_all add: probeDuration_def Let_def)
    show ?thesis
      apply (rule exI[of _ "Suc 0"])
      using res ev2 ar2 fail by simp
  next
    case (Inr cmd)
    let ?ds = "ds @ [\<lparr>scene_no = i + 1, source_duration = ?d, target_duration = duration sc,
                      was_padded = needsPadding ?d (duration sc)\<rparr>]"
    let ?js3 = "push_command (''clip_'' @ padded i) cmd js2"
    from Cons.prems run Inr
    have rec: "preprocess ops e t (i + 1) rest ?ds ?js3 = (js', r)"
      by (simp add: probeDuration_def Let_def)
    from Cons.IH[OF rec] obtain n where n: "n \<le> length rest"
      and evn: "events (snd js') = events (snd ?js3) @
         concat (map (\<lambda>k. [Exec (probe_command (clipInputPath t (i + 1 + k))),
                           Exec (''ffmpeg '' @
                                 clip_args ops (clipInputPath t (i + 1 + k))
                                   (clipOutputPath t (i + 1 + k))
                                   (probed e (clipInputPath t (i + 1 + k))) (duration (rest ! k)))])
                   [0..<n])"
      and arn: "activeRenders (snd js') = activeRenders (snd ?js3)"
      and rn: "case r of
          Inr ds' \<Rightarrow>
            n = length rest \<and>
            ds' = ?ds @ map (\<lambda>k. \<lparr>scene_no = i + 1 + k + 1,
                                  source_duration = probed e (clipInputPath t (i + 1 + k)),
                                  target_duration = duration (rest ! k),
                                  was_padded = needsPadding (probed e (clipInputPath t (i + 1 + k)))
                                                 (duration (rest ! k))\<rparr>)
                        [0..<length rest]
        | Inl err \<Rightarrow> 0 < n \<and> (\<exists>label stderr. err = FFmpegFailed label stderr)"
      by blast
    show ?thesis
    proof (rule exI[of _ "Suc n"], intro conjI)
      show "Suc n \<le> length (sc # rest)" using n by simp
      show "events (snd js') = events (snd js) @
         concat (map (\<lambda>k. [Exec (probe_command (clipInputPath t (i + k))),
                           Exec (''ffmpeg '' @
                                 clip_args ops (clipInputPath t (i + k)) (clipOutputPath t (i + k))
                                   (probed e (clipInputPath t (i + k)))
                                   (duration ((sc # rest) ! k)))])
                   [0..<Suc n])"
        unfolding map_upt_Suc using evn ev2 by (simp add: push_command_simps)
      show "activeRenders (snd js') = activeRenders (snd js)"
        using arn ar2 by (simp add: push_command_simps)
      show "case r of
          Inr ds' \<Rightarrow>
            Suc n = length (sc # rest) \<and>
            ds' = ds @ map (\<lambda>k. \<lparr>scene_no = i + k + 1,
                                  source_duration = probed e (clipInputPath t (i + k)),
                                  target_duration = duration ((sc # rest) ! k),
                                  was_padded = needsPadding (probed e (clipInputPath t (i + k)))
                                                 (duration ((sc # rest) ! k))\<rparr>)
                        [0..<length (sc # rest)]
        | Inl err \<Rightarrow> 0 < Suc n \<and> (\<exists>label stderr. err = FFmpegFailed label stderr)"
      proof (cases r)
        case (Inl err)
        then show ?thesis using rn by simp
      next
        case (Inr ds')
        then have "n = length rest" and d: "ds' = ?ds @ map (\<lambda>k. \<lparr>scene_no = i + 1 + k + 1,
                                  source_duration = probed e (clipInputPath t (i + 1 + k)),
                                  target_duration = duration (rest ! k),
                                  was_padded = needsPadding (probed e (clipInputPath t (i + 1 + k)))
                                                 (duration (rest ! k))\<rparr>)
                        [0..<length rest]"
          using rn by simp_all
        then show ?thesis
          using Inr unfolding length_Cons map_upt_Suc by simp
      qed
    qed
  qed
qed

lemma preprocess_result:
  assumes "preprocess ops e t i scs ds js = (js', r)"
  shows "activeRenders (snd js') = activeRenders (snd js)"
    and "filter is_upload (events (snd js')) = filter is_upload (events (snd js))"
proof -
  from preprocess_events[OF assms] obtain n where
    ev: "events (snd js') = events (snd js) @
       concat (map (\<lambda>k. [Exec (probe_command (clipInputPath t (i + k))),
                         Exec (''ffmpeg '' @
                               clip_args ops (clipInputPath t (i + k)) (clipOutputPath t (i + k))
                                 (probed e (clipInputPath t (i + k))) (duration (scs ! k)))])
                 [0..<n])"
    and ar: "activeRenders (snd js') = activeRenders (snd js)"
    by blast
  show "activeRenders (snd js') = activeRenders (snd js)" by (rule ar)
  have "filter is_upload (concat (map (\<lambda>k. [Exec (f k), Exec (g k)]) xs)) = []" for f g and xs :: "nat list"
    by (induction xs) simp_all
  then show "filter is_upload (events (snd js')) = filter is_upload (events (snd js))"
    unfolding ev by simp
qed

lemma preprocess_ok:
  assumes "\<And>c. ffmpeg e c = ExecOk"
  shows "\<exists>ds'. snd (preprocess ops e t i scs ds js) = Inr ds'"
proof (induction scs arbitrary: i ds js)
  case Nil
  show ?case by simp
next
  case (Cons sc rest)
  show ?case
    using Cons.IH assms
    by (simp add: Let_def runFFmpeg_def probeDuration_def split: prod.splits)
qed

lemma filter_upload_downloads:
  "filter is_upload (map (\<lambda>(a, b). Download (f a b) (g a b)) xs) = []"
  by (induction xs) auto

lemma start_downloads_result:
  "fst (start_downloads req t js) = fst js"
  "activeRenders (snd (start_downloads req t js)) = activeRenders (snd js)"
  "filter is_upload (events (snd (start_downloads req t js))) = filter is_upload (events (snd js))"
  by (simp_all add: start_downloads_def Let_def emit_def filter_upload_downloads)

lemma begin_job_result:
  assumes "begin_job e req t js = (js', r)"
  shows "activeRenders (snd js') = activeRenders (snd js)"
    and "filter is_upload (events (snd js')) = filter is_upload (events (snd js))"
    and "validate req \<noteq> None \<Longrightarrow> js' = js \<and> r = validate req"
    and "validate req = None \<Longrightarrow> mkdir_error e = (\<lambda>p. None) \<Longrightarrow> r = None"
  using assms
  by (auto simp add: begin_job_def Let_def emit_def push_step_def start_downloads_result
      split: option.splits)

lemma writeRenderLog_result:
  assumes "writeRenderLog e gid js = (js', w)"
  shows "fst js' = fst js" and "activeRenders (snd js') = activeRenders (snd js)"
    and "filter is_upload (events (snd js')) = filter is_upload (events (snd js))"
    and "w = write_error e (logPath e gid)"
  using assms by (auto simp add: writeRenderLog_def emit_def split: option.splits)

lemma after_downloads_result:
  assumes "after_downloads ops e req t js = (js', r)"
  shows "activeRenders (snd js') = activeRenders (snd js)"
    and "\<And>err. r = Inl err \<Longrightarrow>
           filter is_upload (events (snd js')) = filter is_upload (events (snd js))"
    and "\<And>sz d. r = Inr (sz, d) \<Longrightarrow>
           file_size e (path_join t ''output.mp4'') = Some sz \<and> 1000 \<le> sz"
proof -
  obtain js1 r1 where p: "preprocess ops e t 0 (the (scenes req)) [] (push_step DownloadStep js) = (js1, r1)"
    by (cases "preprocess ops e t 0 (the (scenes req)) [] (push_step DownloadStep js)")
  note p1 = preprocess_result[OF p]
  let ?js2 = "emit [WriteFile (path_join t ''concat.txt'') (concatContent t (the (scenes req)))]
                (push_step (PreprocessStep (projr r1)) js1)"
  obtain js3 r3 where f: "runFFmpeg e (finalArgs ops req t) ''final assembly'' ?js2 = (js3, r3)"
    by (cases "runFFmpeg e (finalArgs ops req t) ''final assembly'' ?js2")
  note f1 = runFFmpeg_result(2,3)[OF f]
  let ?js4 = "push_command ''assembly'' (projr r3) js3"
  obtain js5 d5 where q: "probeDuration e (path_join t ''output.mp4'') ?js4 = (js5, d5)"
    by (cases "probeDuration e (path_join t ''output.mp4'') ?js4")
  note q1 = probeDuration_result(2,3)[OF q]
  have base: "activeRenders (snd js1) = activeRenders (snd js)"
    "filter is_upload (events (snd js1)) = filter is_upload (events (snd js))"
    using p1 by (simp_all add: push_step_def)
  have b3: "activeRenders (snd js3) = activeRenders (snd js)"
    "filter is_upload (events (snd js3)) = filter is_upload (events (snd js))"
    using f1 base by (simp_all add: emit_def push_step_def)
  have b5: "activeRenders (snd js5) = activeRenders (snd js)"
    "filter is_upload (events (snd js5)) = filter is_upload (events (snd js))"
    using q1 b3 by (simp_all add: push_command_def)
  show "activeRenders (snd js') = activeRenders (snd js)"
    using assms p f q base b3 b5
    by (auto simp add: after_downloads_def Let_def emit_def push_step_def push_command_def
        split: sum.splits option.splits if_splits)
  show "filter is_upload (events (snd js')) = filter is_upload (events (snd js))" if "r = Inl err" for err
    using assms p f q base b3 b5 that
    by (auto simp add: after_downloads_def Let_def emit_def push_step_def push_command_def
        split: sum.splits option.splits if_splits)
  show "file_size e (path_join t ''output.mp4'') = Some sz \<and> 1000 \<le> sz" if "r = Inr (sz, d)" for sz d
    using assms p f q that
    by (auto simp add: after_downloads_def Let_def
        split: sum.splits option.splits if_splits)
qed

lemma catch_block_result:
  assumes "catch_block e gid err js = (js', resp)"
  shows "activeRenders (snd js') = activeRenders (snd js)"
    and "filter is_upload (events (snd js')) = filter is_upload (events (snd js))"
    and "resp = (case write_error e (logPath e gid) of
                   None \<Rightarrow> Some (500, ErrorBody (message err))
                 | Some m \<Rightarrow> None)"
  using assms
  by (auto simp add: catch_block_def writeRenderLog_def Let_def emit_def push_step_def
      split: option.splits)

lemma after_upload_result:
  assumes "after_upload e req gid sz d js = (js', r)"
  shows "activeRenders (snd js') = activeRenders (snd js)"
    and "\<And>resp. r = Inr resp \<Longrightarrow> fst resp = 200"
  using assms
  by (auto simp add: after_upload_def writeRenderLog_def Let_def emit_def push_step_def
      split: option.splits)

lemma try_block_result:
  assumes "try_block ops e req gid t js = (js', r)"
  shows "activeRenders (snd js') = activeRenders (snd js)"
    and "(\<And>sz. file_size e (path_join t ''output.mp4'') = Some sz \<Longrightarrow> sz < 1000) \<Longrightarrow>
           (\<exists>err. r = Inl err) \<and>
           filter is_upload (events (snd js')) = filter is_upload (events (snd js))"
    and "\<And>resp. r = Inr resp \<Longrightarrow>
           fst resp = 200 \<and> (\<exists>sz\<ge>1000. file_size e (path_join t ''output.mp4'') = Some sz)"
proof -
  obtain js1 r1 where b: "begin_job e req t js = (js1, r1)"
    by (cases "begin_job e req t js")
  note b1 = begin_job_result(1,2)[OF b]
  obtain js2 r2 where a: "after_downloads ops e req t js1 = (js2, r2)"
    by (cases "after_downloads ops e req t js1")
  note a1 = after_downloads_result[OF a]
  obtain js3 r3 where u:
    "after_upload e req gid (fst (projr r2)) (snd (projr r2)) js2 = (js3, r3)"
    by (cases "after_upload e req gid (fst (projr r2)) (snd (projr r2)) js2")
  note u1 = after_upload_result[OF u]
  show "activeRenders (snd js') = activeRenders (snd js)"
    using assms b b1 a a1(1) u u1(1)
    by (auto simp add: try_block_def split: option.splits sum.splits)
  show "(\<exists>err. r = Inl err) \<and>
        filter is_upload (events (snd js')) = filter is_upload (events (snd js))"
    if "\<And>sz. file_size e (path_join t ''output.mp4'') = Some sz \<Longrightarrow> sz < 1000"
    using assms b b1 a a1(2,3) that
    by (fastforce simp add: try_block_def split: option.splits sum.splits)
  show "fst resp = 200 \<and> (\<exists>sz\<ge>1000. file_size e (path_join t ''output.mp4'') = Some sz)"
    if "r = Inr resp" for resp
    using assms b a a1(3) u u1(2)[of resp] that
    by (auto simp add: try_block_def split: option.splits sum.splits)
qed

lemma show_int_MAX: "show_int MAX_CONCURRENT_RENDERS = ''2''"
  by code_simp

lemma try_catch_result:
  assumes "try_catch ops e req gid js = (js', resp)"
  shows "activeRenders (snd js') = activeRenders (snd js)"
    and "\<And>b. resp = Some (200, b) \<Longrightarrow> \<exists>sz\<ge>1000. file_size e (outputPath gid) = Some sz"
    and "(\<And>sz. file_size e (outputPath gid) = Some sz \<Longrightarrow> sz < 1000) \<Longrightarrow>
           (\<forall>b. resp \<noteq> Some (200, b)) \<and>
           filter is_upload (events (snd js')) = filter is_upload (events (snd js))"
proof -
  obtain js1 r1 where t: "try_block ops e req gid (tempDir gid) js = (js1, r1)"
    by (cases "try_block ops e req gid (tempDir gid) js")
  note t1 = try_block_result[OF t]
  obtain js2 r2 where c: "catch_block e gid (projl r1) js1 = (js2, r2)"
    by (cases "catch_block e gid (projl r1) js1")
  note c1 = catch_block_result[OF c]
  show "activeRenders (snd js') = activeRenders (snd js)"
    using assms t t1(1) c c1(1) by (auto simp add: try_catch_def split: sum.splits)
  show "\<exists>sz\<ge>1000. file_size e (outputPath gid) = Some sz" if "resp = Some (200, b)" for b
    using assms t t1(3) c c1(3) that
    by (auto simp add: try_catch_def outputPath_def split: sum.splits option.splits)
  show "(\<forall>b. resp \<noteq> Some (200, b)) \<and>
        filter is_upload (events (snd js')) = filter is_upload (events (snd js))"
    if "\<And>sz. file_size e (outputPath gid) = Some sz \<Longrightarrow> sz < 1000"
  proof -
    from that have "\<And>sz. file_size e (path_join (tempDir gid) ''output.mp4'') = Some sz \<Longrightarrow> sz < 1000"
      by (simp add: outputPath_def)
    from t1(2)[OF this] obtain err where "r1 = Inl err"
      and "filter is_upload (events (snd js1)) = filter is_upload (events (snd js))"
      by blast
    then show ?thesis
      using assms t c c1 by (auto simp add: try_catch_def split: option.splits)
  qed
qed

lemma after_downloads_rejects:
  assumes "\<And>c. ffmpeg e c = ExecOk" and "write_error e (path_join t ''concat.txt'') = None"
  shows "file_size e (path_join t ''output.mp4'') = None \<Longrightarrow>
           snd (after_downloads ops e req t js) = Inl NoOutputFile"
    and "file_size e (path_join t ''output.mp4'') = Some n \<Longrightarrow> n < 1000 \<Longrightarrow>
           snd (after_downloads ops e req t js) = Inl (OutputTooSmall n)"
proof -
  obtain ds' where "snd (preprocess ops e t 0 (the (scenes req)) [] (push_step DownloadStep js)) = Inr ds'"
    using preprocess_ok[OF assms(1)] by blast
  then obtain js1 where p:
    "preprocess ops e t 0 (the (scenes req)) [] (push_step DownloadStep js) = (js1, Inr ds')"
    by (cases "preprocess ops e t 0 (the (scenes req)) [] (push_step DownloadStep js)") simp
  show "snd (after_downloads ops e req t js) = Inl NoOutputFile"
    if "file_size e (path_join t ''output.mp4'') = None"
    using p assms that by (simp add: after_downloads_def Let_def runFFmpeg_def)
  show "snd (after_downloads ops e req t js) = Inl (OutputTooSmall n)"
    if "file_size e (path_join t ''output.mp4'') = Some n" "n < 1000"
    using p assms that by (simp add: after_downloads_def Let_def runFFmpeg_def)
qed

lemma try_catch_rejects:
  assumes "validate req = None" and "mkdir_error e = (\<lambda>p. None)"
    and "download_error e = None" and "\<And>c. ffmpeg e c = ExecOk"
    and "write_error e (path_join (tempDir gid) ''concat.txt'') = None"
  shows "file_size e (outputPath gid) = None \<Longrightarrow>
           snd (try_catch ops e req gid js) =
             (case write_error e (logPath e gid) of
                None \<Rightarrow> Some (500, ErrorBody (message NoOutputFile))
              | Some m \<Rightarrow> None)"
    and "file_size e (outputPath gid) = Some n \<Longrightarrow> n < 1000 \<Longrightarrow>
           snd (try_catch ops e req gid js) =
             (case write_error e (logPath e gid) of
                None \<Rightarrow> Some (500, ErrorBody (message (OutputTooSmall n)))
              | Some m \<Rightarrow> None)"
proof -
  obtain js1 r1 where b0: "begin_job e req (tempDir gid) js = (js1, r1)"
    by (cases "begin_job e req (tempDir gid) js")
  have b: "begin_job e req (tempDir gid) js = (js1, None)"
    using begin_job_result(4)[OF b0 assms(1,2)] b0 by simp
  obtain js2 r2 where a: "after_downloads ops e req (tempDir gid) js1 = (js2, r2)"
    by (cases "after_downloads ops e req (tempDir gid) js1")
  have c: "snd (catch_block e g err j) =
             (case write_error e (logPath e g) of
                None \<Rightarrow> Some (500, ErrorBody (message err))
              | Some m \<Rightarrow> None)" for g err j
    using catch_block_result(3)[of e g err j] by (cases "catch_block e g err j") simp
  show "snd (try_catch ops e req gid js) =
             (case write_error e (logPath e gid) of
                None \<Rightarrow> Some (500, ErrorBody (message NoOutputFile))
              | Some m \<Rightarrow> None)"
    if "file_size e (outputPath gid) = None"
    using after_downloads_rejects(1)[OF assms(4,5), of ops req js1] that a b assms(3) c
    by (simp add: try_catch_def try_block_def outputPath_def)
  show "snd (try_catch ops e req gid js) =
             (case write_error e (logPath e gid) of
                None \<Rightarrow> Some (500, ErrorBody (message (OutputTooSmall n)))
              | Some m \<Rightarrow> None)"
    if "file_size e (outputPath gid) = Some n" "n < 1000"
    using after_downloads_rejects(2)[OF assms(4,5), of n ops req js1] that a b assms(3) c
    by (simp add: try_catch_def try_block_def outputPath_def)
qed

lemma handleRender_admitted:
  assumes "activeRenders s < MAX_CONCURRENT_RENDERS" and "template ops (genId e req) = Some gid"
  shows "handleRender ops e (Some req) s =
     (finally_block (snd (fst (try_catch ops e req gid
                                 (new_log (Some req), s\<lparr>activeRenders := activeRenders s + 1\<rparr>)))),
      snd (try_catch ops e req gid (new_log (Some req), s\<lparr>activeRenders := activeRenders s + 1\<rparr>)))"
  using assms by (simp add: handleRender_def Let_def split: prod.splits)

lemma try_block_rejects:
  assumes "validate req = None" and "mkdir_error e = (\<lambda>p. None)"
    and "download_error e = None" and "\<And>c. ffmpeg e c = ExecOk"
    and "write_error e (path_join (tempDir gid) ''concat.txt'') = None"
  shows "file_size e (outputPath gid) = None \<Longrightarrow>
           snd (try_block ops e req gid (tempDir gid) js) = Inl NoOutputFile"
    and "file_size e (outputPath gid) = Some n \<Longrightarrow> n < 1000 \<Longrightarrow>
           snd (try_block ops e req gid (tempDir gid) js) = Inl (OutputTooSmall n)"
proof -
  obtain js1 r1 where b0: "begin_job e req (tempDir gid) js = (js1, r1)"
    by (cases "begin_job e req (tempDir gid) js")
  have b: "begin_job e req (tempDir gid) js = (js1, None)"
    using begin_job_result(4)[OF b0 assms(1,2)] b0 by simp
  obtain js2 r2 where a: "after_downloads ops e req (tempDir gid) js1 = (js2, r2)"
    by (cases "after_downloads ops e req (tempDir gid) js1")
  show "snd (try_block ops e req gid (tempDir gid) js) = Inl NoOutputFile"
    if "file_size e (outputPath gid) = None"
    using after_downloads_rejects(1)[OF assms(4,5), of ops req js1] that a b assms(3)
    by (simp add: try_block_def outputPath_def)
  show "snd (try_block ops e req gid (tempDir gid) js) = Inl (OutputTooSmall n)"
    if "file_size e (outputPath gid) = Some n" "n < 1000"
    using after_downloads_rejects(2)[OF assms(4,5), of n ops req js1] that a b assms(3)
    by (simp add: try_block_def outputPath_def)
qed

lemma catch_block_last:
  "last (events (snd (fst (catch_block e gid err js)))) =
     (case write_error e (logPath e gid) of
        None \<Rightarrow> WriteLog (logPath e gid)
                  ((fst js)\<lparr>steps := steps (fst js) @ [ErrorStep (message err)],
                            result := Some (ErrorBody (message err))\<rparr>)
      | Some m \<Rightarrow> WriteFailed (logPath e gid))"
  by (simp add: catch_block_def writeRenderLog_def Let_def emit_def push_step_def
      split: option.splits)

lemma handleRender_rejects:
  assumes "activeRenders s < MAX_CONCURRENT_RENDERS" and "template ops (genId e req) = Some gid"
    and "snd (try_block ops e req gid (tempDir gid)
                (new_log (Some req), s\<lparr>activeRenders := activeRenders s + 1\<rparr>)) = Inl err"
  shows "snd (handleRender ops e (Some req) s) =
           (case write_error e (logPath e gid) of
              None \<Rightarrow> Some (500, ErrorBody (message err))
            | Some m \<Rightarrow> None)"
    and "case last (events (fst (handleRender ops e (Some req) s))) of
           WriteLog p l \<Rightarrow> p = logPath e gid \<and> result l = Some (ErrorBody (message err))
         | WriteFailed p \<Rightarrow> p = logPath e gid
         | _ \<Rightarrow> False"
proof -
  let ?js = "(new_log (Some req), s\<lparr>activeRenders := activeRenders s + 1\<rparr>)"
  obtain js1 where t: "try_block ops e req gid (tempDir gid) ?js = (js1, Inl err)"
    using assms(3) by (cases "try_block ops e req gid (tempDir gid) ?js") simp
  have tc: "try_catch ops e req gid ?js = catch_block e gid err js1"
    using t by (simp add: try_catch_def)
  have h: "handleRender ops e (Some req) s =
             (finally_block (snd (fst (catch_block e gid err js1))), snd (catch_block e gid err js1))"
    using handleRender_admitted[OF assms(1,2)] tc by simp
  show "snd (handleRender ops e (Some req) s) =
           (case write_error e (logPath e gid) of
              None \<Rightarrow> Some (500, ErrorBody (message err))
            | Some m \<Rightarrow> None)"
    unfolding h using catch_block_result(3)[of e gid err js1]
    by (cases "catch_block e gid err js1") simp
  show "case last (events (fst (handleRender ops e (Some req) s))) of
           WriteLog p l \<Rightarrow> p = logPath e gid \<and> result l = Some (ErrorBody (message err))
         | WriteFailed p \<Rightarrow> p = logPath e gid
         | _ \<Rightarrow> False"
    unfolding h using catch_block_last[of e gid err js1]
    by (simp add: finally_block_def split: option.splits)
qed

lemma clip_args_eq:
  \<open>''ffmpeg '' @ clip_args ops inp out d t =
     ''ffmpeg -y -i "'' @ inp @ ''" -vf "'' @ base_vf @
     (if js_lt d (Num t)
      then '',tpad=stop_mode=clone:stop_duration='' @
           jsnum_str ops (js_add ops (js_ceil (js_sub ops (Num t) d)) (Num 1))
      else []) @
     ''" -t '' @ num_str ops t @ '' -c:v libx264 -preset fast -crf 18 -an "'' @ out @ ''"''\<close>
  by (simp add: clip_args_def clip_vf_def needsPadding_def Let_def)

text \<open>
  C2. The loop over the scenes runs, for the scenes \<open>0, ..., n - 1\<close> in order, the probe of
  the downloaded clip and then one \<open>ffmpeg\<close> command; it returns the details of all scenes
  (\<open>n\<close> is their number) or stops at the first command that failed. The command of scene
  \<open>k\<close> always trims with \<open>-t target\<close> and drops the audio with \<open>-an\<close>. Its video filter
  ends with a last-frame clone exactly when the probed duration is below the target
  (never for a probe that read \<open>NaN\<close>), and the clone lasts
  \<open>ceil(target - probed) + 1\<close> seconds. The difference and the sum are those of doubles:
  the exact value when that is a double, its rounding otherwise; the ceiling is exact.
\<close>

theorem clip_commands:
  assumes "preprocess ops e tmp 0 scs [] js = (js', r)"
  shows
    \<open>(\<exists>n\<le>length scs.
        events (snd js') = events (snd js) @
          concat (map (\<lambda>k.
            [Exec (probe_command (clipInputPath tmp k)),
             Exec (''ffmpeg -y -i "'' @ clipInputPath tmp k @ ''" -vf "'' @ base_vf @
                   (if js_lt (probed e (clipInputPath tmp k)) (Num (duration (scs ! k)))
                    then '',tpad=stop_mode=clone:stop_duration='' @
                         jsnum_str ops
                           (js_add ops
                              (js_ceil (js_sub ops (Num (duration (scs ! k)))
                                          (probed e (clipInputPath tmp k))))
                              (Num 1))
                    else []) @
                   ''" -t '' @ num_str ops (duration (scs ! k)) @
                   '' -c:v libx264 -preset fast -crf 18 -an "'' @ clipOutputPath tmp k @ ''"'')])
            [0..<n]) \<and>
        (case r of
           Inr ds \<Rightarrow>
             n = length scs \<and>
             map was_padded ds =
               map (\<lambda>k. js_lt (probed e (clipInputPath tmp k)) (Num (duration (scs ! k))))
                 [0..<length scs]
         | Inl err \<Rightarrow> 0 < n \<and> (\<exists>label stderr. err = FFmpegFailed label stderr))) \<and>
     (\<forall>a b. js_lt (Num a) (Num b) = (a < b)) \<and> (\<forall>x. \<not> js_lt NaN x) \<and>
     (\<forall>a b. is_double (a - b) \<longrightarrow> js_sub ops (Num a) (Num b) = Num (a - b)) \<and>
     (\<forall>a b. \<not> is_double (a - b) \<longrightarrow> js_sub ops (Num a) (Num b) = round_double ops (a - b)) \<and>
     (\<forall>a. js_ceil (Num a) = Num (of_int \<lceil>a\<rceil>)) \<and>
     (\<forall>a. is_double (a + 1) \<longrightarrow> js_add ops (Num a) (Num 1) = Num (a + 1)) \<and>
     (\<forall>a. \<not> is_double (a + 1) \<longrightarrow> js_add ops (Num a) (Num 1) = round_double ops (a + 1))\<close>
proof -
  from preprocess_events[OF assms] obtain n where n: "n \<le> length scs"
    and ev: "events (snd js') = events (snd js) @
       concat (map (\<lambda>k. [Exec (probe_command (clipInputPath tmp (0 + k))),
                         Exec (''ffmpeg '' @
                               clip_args ops (clipInputPath tmp (0 + k)) (clipOutputPath tmp (0 + k))
                                 (probed e (clipInputPath tmp (0 + k))) (duration (scs ! k)))])
                 [0..<n])"
    and r: "case r of
        Inr ds' \<Rightarrow>
          n = length scs \<and>
          ds' = [] @ map (\<lambda>k. \<lparr>scene_no = 0 + k + 1,
                                source_duration = probed e (clipInputPath tmp (0 + k)),
                                target_duration = duration (scs ! k),
                                was_padded = needsPadding (probed e (clipInputPath tmp (0 + k)))
                                               (duration (scs ! k))\<rparr>)
                      [0..<length scs]
      | Inl err \<Rightarrow> 0 < n \<and> (\<exists>label stderr. err = FFmpegFailed label stderr)"
    by blast
  have loop: \<open>\<exists>n\<le>length scs.
        events (snd js') = events (snd js) @
          concat (map (\<lambda>k.
            [Exec (probe_command (clipInputPath tmp k)),
             Exec (''ffmpeg -y -i "'' @ clipInputPath tmp k @ ''" -vf "'' @ base_vf @
                   (if js_lt (probed e (clipInputPath tmp k)) (Num (duration (scs ! k)))
                    then '',tpad=stop_mode=clone:stop_duration='' @
                         jsnum_str ops
                           (js_add ops
                              (js_ceil (js_sub ops (Num (duration (scs ! k)))
                                          (probed e (clipInputPath tmp k))))
                              (Num 1))
                    else []) @
                   ''" -t '' @ num_str ops (duration (scs ! k)) @
                   '' -c:v libx264 -preset fast -crf 18 -an "'' @ clipOutputPath tmp k @ ''"'')])
            [0..<n]) \<and>
        (case r of
           Inr ds \<Rightarrow>
             n = length scs \<and>
             map was_padded ds =
               map (\<lambda>k. js_lt (probed e (clipInputPath tmp k)) (Num (duration (scs ! k))))
                 [0..<length scs]
         | Inl err \<Rightarrow> 0 < n \<and> (\<exists>label stderr. err = FFmpegFailed label stderr))\<close>
  proof (rule exI[of _ n], intro conjI)
    show "n \<le> length scs" by (rule n)
    show \<open>events (snd js') = events (snd js) @
          concat (map (\<lambda>k.
            [Exec (probe_command (clipInputPath tmp k)),
             Exec (''ffmpeg -y -i "'' @ clipInputPath tmp k @ ''" -vf "'' @ base_vf @
                   (if js_lt (probed e (clipInputPath tmp k)) (Num (duration (scs ! k)))
                    then '',tpad=stop_mode=clone:stop_duration='' @
                         jsnum_str ops
                           (js_add ops
                              (js_ceil (js_sub ops (Num (duration (scs ! k)))
                                          (probed e (clipInputPath tmp k))))
                              (Num 1))
                    else []) @
                   ''" -t '' @ num_str ops (duration (scs ! k)) @
                   '' -c:v libx264 -preset fast -crf 18 -an "'' @ clipOutputPath tmp k @ ''"'')])
            [0..<n])\<close>
      unfolding ev clip_args_eq add_0 by (rule refl)
    show "case r of
           Inr ds \<Rightarrow>
             n = length scs \<and>
             map was_padded ds =
               map (\<lambda>k. js_lt (probed e (clipInputPath tmp k)) (Num (duration (scs ! k))))
                 [0..<length scs]
         | Inl err \<Rightarrow> 0 < n \<and> (\<exists>label stderr. err = FFmpegFailed label stderr)"
      using r by (cases r) (simp_all add: needsPadding_def comp_def)
  qed
  have arith: "(\<forall>a b. js_lt (Num a) (Num b) = (a < b)) \<and> (\<forall>x. \<not> js_lt NaN x) \<and>
     (\<forall>a b. is_double (a - b) \<longrightarrow> js_sub ops (Num a) (Num b) = Num (a - b)) \<and>
     (\<forall>a b. \<not> is_double (a - b) \<longrightarrow> js_sub ops (Num a) (Num b) = round_double ops (a - b)) \<and>
     (\<forall>a. js_ceil (Num a) = Num (of_int \<lceil>a\<rceil>)) \<and>
     (\<forall>a. is_double (a + 1) \<longrightarrow> js_add ops (Num a) (Num 1) = Num (a + 1)) \<and>
     (\<forall>a. \<not> is_double (a + 1) \<longrightarrow> js_add ops (Num a) (Num 1) = round_double ops (a + 1))"
    by (simp add: fround_def)
  from loop arith show ?thesis by (rule conjI)
qed

theorem clip_commands_witness:
  \<open>events (snd (fst (preprocess decimal_ops (ex_env\<lparr>ffprobe := \<lambda>c. Some (Num (7 / 2))\<rparr>)
                       (tempDir ''g1'') 0
                       [\<lparr>video_url = ''https://cdn.example/s1.mp4'', duration = 5\<rparr>,
                        \<lparr>video_url = ''https://cdn.example/s2.mp4'', duration = 2\<rparr>] []
                       (new_log None, idle)))) =
     [Exec ''ffprobe -v error -show_entries format=duration -of csv=p=0 "/tmp/render-g1/clips/001.mp4"'',
      Exec ''ffmpeg -y -i "/tmp/render-g1/clips/001.mp4" -vf "fps=30,scale=1920:1080:force_original_aspect_ratio=decrease,pad=1920:1080:(ow-iw)/2:(oh-ih)/2:black,tpad=stop_mode=clone:stop_duration=3" -t 5 -c:v libx264 -preset fast -crf 18 -an "/tmp/render-g1/processed/001.mp4"'',
      Exec ''ffprobe -v error -show_entries format=duration -of csv=p=0 "/tmp/render-g1/clips/002.mp4"'',
      Exec ''ffmpeg -y -i "/tmp/render-g1/clips/002.mp4" -vf "fps=30,scale=1920:1080:force_original_aspect_ratio=decrease,pad=1920:1080:(ow-iw)/2:(oh-ih)/2:black" -t 2 -c:v libx264 -preset fast -crf 18 -an "/tmp/render-g1/processed/002.mp4"'']\<close>
proof -
  let ?e = "ex_env\<lparr>ffprobe := \<lambda>c. Some (Num (7 / 2))\<rparr>"
  let ?scs = "[\<lparr>video_url = ''https://cdn.example/s1.mp4'', duration = 5\<rparr>,
               \<lparr>video_url = ''https://cdn.example/s2.mp4'', duration = 2\<rparr>]"
  let ?p = "preprocess decimal_ops ?e (tempDir ''g1'') 0 ?scs [] (new_log None, idle)"
  have ok: "\<exists>ds. snd ?p = Inr ds"
    by (rule preprocess_ok) (simp add: ex_env_def)
  then obtain ds where ds: "snd ?p = Inr ds" by blast
  from clip_commands[where ops = decimal_ops and e = ?e and tmp = "tempDir ''g1''" and scs = ?scs
      and js = "(new_log None, idle)" and js' = "fst ?p" and r = "snd ?p",
      OF surjective_pairing, THEN conjunct1]
  obtain n where ev: \<open>events (snd (fst ?p)) = events (snd (new_log None, idle)) @
          concat (map (\<lambda>k.
            [Exec (probe_command (clipInputPath (tempDir ''g1'') k)),
             Exec (''ffmpeg -y -i "'' @ clipInputPath (tempDir ''g1'') k @ ''" -vf "'' @ base_vf @
                   (if js_lt (probed ?e (clipInputPath (tempDir ''g1'') k)) (Num (duration (?scs ! k)))
                    then '',tpad=stop_mode=clone:stop_duration='' @
                         jsnum_str decimal_ops
                           (js_add decimal_ops
                              (js_ceil (js_sub decimal_ops (Num (duration (?scs ! k)))
                                          (probed ?e (clipInputPath (tempDir ''g1'') k))))
                              (Num 1))
                    else []) @
                   ''" -t '' @ num_str decimal_ops (duration (?scs ! k)) @
                   '' -c:v libx264 -preset fast -crf 18 -an "'' @
                   clipOutputPath (tempDir ''g1'') k @ ''"'')])
            [0..<n])\<close>
    and r: "case snd ?p of
           Inr ds \<Rightarrow> n = length ?scs \<and>
             map was_padded ds =
               map (\<lambda>k. js_lt (probed ?e (clipInputPath (tempDir ''g1'') k)) (Num (duration (?scs ! k))))
                 [0..<length ?scs]
         | Inl err \<Rightarrow> 0 < n \<and> (\<exists>label stderr. err = FFmpegFailed label stderr)"
    by auto
  from r ds have n: "n = Suc (Suc 0)" by simp
  show ?thesis
    unfolding ev n by code_simp
qed

text \<open>
  C4. A request that arrives while \<open>activeRenders\<close> is at or above the ceiling is
  answered at once with status 503 and a message that reports the active and the maximum
  count, whatever its body. The state is returned as it was: the counter is unchanged
  and no event is recorded, so no directory is created and no render log is written.
\<close>

theorem busy_rejection:
  assumes "MAX_CONCURRENT_RENDERS \<le> activeRenders s"
  shows "handleRender ops e b s =
           (s, Some (503, BusyBody (''Server busy: '' @ show_int (activeRenders s) @
                                    ''/2 renders active. Try again later.'')))"
  using assms by (simp add: handleRender_def busy_message_def show_int_MAX)

theorem busy_rejection_witness:
  "MAX_CONCURRENT_RENDERS \<le> activeRenders \<lparr>activeRenders = 2, events = []\<rparr> \<and>
   handleRender decimal_ops ex_env (Some ex_request) \<lparr>activeRenders = 2, events = []\<rparr> =
     (\<lparr>activeRenders = 2, events = []\<rparr>,
      Some (503, BusyBody ''Server busy: 2/2 renders active. Try again later.''))"
proof -
  have h: "MAX_CONCURRENT_RENDERS \<le> activeRenders \<lparr>activeRenders = 2, events = []\<rparr>"
    by (simp add: MAX_CONCURRENT_RENDERS_def)
  have s: "show_int 2 = ''2''"
    by code_simp
  show ?thesis
    using busy_rejection [OF h, of decimal_ops ex_env "Some ex_request"] h by (simp add: s)
qed

text \<open>
  C5 (as amended). An admitted request without scenes, without \<open>narration_url\<close> or
  without \<open>b2_path\<close> fails validation before anything is allocated: no directory is
  created, no download and no subprocess is started. The one thing the job touches is
  the render log of the failed job, which the \<open>catch\<close> clause writes for every failure:
  when the write succeeds, the log records the validation error and the request is
  answered with the 500 error; when the write throws, nothing else happens and the
  request gets no answer from the handler. (When \<open>genId\<close> has no text, the call has
  ended before the validation, with no event at all.)
\<close>

theorem validation_failure:
  assumes "activeRenders s < MAX_CONCURRENT_RENDERS"
    and "scenes req = None \<or> scenes req = Some [] \<or> \<not> truthy_str (narration_url req) \<or>
         \<not> truthy_str (b2_path req)"
  shows "\<exists>err. validate req = Some err \<and>
      handleRender ops e (Some req) s =
        (case template ops (genId e req) of
           None \<Rightarrow> (s\<lparr>activeRenders := activeRenders s + 1\<rparr>, None)
         | Some gid \<Rightarrow>
             (case write_error e (logPath e gid) of
                None \<Rightarrow>
                  (s\<lparr>events := events s @
                       [WriteLog (logPath e gid)
                          \<lparr>log_request = Some req, steps = [ErrorStep (message err)],
                           ffmpeg_commands = [],
                           result = Some (ErrorBody (message err))\<rparr>]\<rparr>,
                   Some (500, ErrorBody (message err)))
              | Some m \<Rightarrow> (s\<lparr>events := events s @ [WriteFailed (logPath e gid)]\<rparr>, None)))"
proof -
  from assms(2) have "validate req \<noteq> None"
    by (auto simp add: validate_def)
  then obtain err where v: "validate req = Some err"
    by blast
  have "handleRender ops e (Some req) s =
        (case template ops (genId e req) of
           None \<Rightarrow> (s\<lparr>activeRenders := activeRenders s + 1\<rparr>, None)
         | Some gid \<Rightarrow>
             (case write_error e (logPath e gid) of
                None \<Rightarrow>
                  (s\<lparr>events := events s @
                       [WriteLog (logPath e gid)
                          \<lparr>log_request = Some req, steps = [ErrorStep (message err)],
                           ffmpeg_commands = [],
                           result = Some (ErrorBody (message err))\<rparr>]\<rparr>,
                   Some (500, ErrorBody (message err)))
              | Some m \<Rightarrow> (s\<lparr>events := events s @ [WriteFailed (logPath e gid)]\<rparr>, None)))"
    using assms(1) v
    by (simp add: handleRender_def try_catch_def try_block_def begin_job_def catch_block_def
        writeRenderLog_def finally_block_def new_log_def emit_def push_step_def Let_def
        split: option.splits)
  with v show ?thesis by blast
qed

theorem validation_failure_witness:
  "activeRenders idle < MAX_CONCURRENT_RENDERS \<and>
   scenes (ex_request\<lparr>scenes := None\<rparr>) = None \<and>
   handleRender decimal_ops ex_env (Some (ex_request\<lparr>scenes := None\<rparr>)) idle =
     (\<lparr>activeRenders = 0,
       events = [WriteLog ''/opt/ffmpeg-api/render_logs/renderlog_g1.json''
                  \<lparr>log_request = Some (ex_request\<lparr>scenes := None\<rparr>),
                   steps = [ErrorStep ''No scenes provided''], ffmpeg_commands = [],
                   result = Some (ErrorBody ''No scenes provided'')\<rparr>]\<rparr>,
      Some (500, ErrorBody ''No scenes provided'')) \<and>
   handleRender decimal_ops (ex_env\<lparr>write_error := \<lambda>p. Some ''ENOENT''\<rparr>)
     (Some (ex_request\<lparr>scenes := None\<rparr>)) idle =
     (\<lparr>activeRenders = 0,
       events = [WriteFailed ''/opt/ffmpeg-api/render_logs/renderlog_g1.json'']\<rparr>, None)"
proof -
  let ?r = "ex_request\<lparr>scenes := None\<rparr>"
  let ?e = "ex_env\<lparr>write_error := \<lambda>p. Some ''ENOENT''\<rparr>"
  have h1: "activeRenders idle < MAX_CONCURRENT_RENDERS"
    by (simp add: idle_def MAX_CONCURRENT_RENDERS_def)
  have h2: "scenes ?r = None \<or> scenes ?r = Some [] \<or> \<not> truthy_str (narration_url ?r) \<or>
            \<not> truthy_str (b2_path ?r)"
    by simp
  have v: "validate ?r = Some NoScenes"
    by code_simp
  have g: "template decimal_ops (genId E ?r) = Some ''g1''" for E
    by (simp add: genId_def ex_request_def)
  have w: "write_error ex_env P = None" "write_error ?e P = Some ''ENOENT''" for P
    by (simp_all add: ex_env_def)
  have p: "logPath ex_env ''g1'' = ''/opt/ffmpeg-api/render_logs/renderlog_g1.json''"
    "logPath ?e ''g1'' = ''/opt/ffmpeg-api/render_logs/renderlog_g1.json''"
    by code_simp+
  have m: "message NoScenes = ''No scenes provided''"
    by simp
  have i: "idle\<lparr>events := events idle @ evs\<rparr> = \<lparr>activeRenders = 0, events = evs\<rparr>" for evs
    by (simp add: idle_def)
  have 1: "handleRender decimal_ops ex_env (Some ?r) idle =
     (\<lparr>activeRenders = 0,
       events = [WriteLog ''/opt/ffmpeg-api/render_logs/renderlog_g1.json''
                  \<lparr>log_request = Some ?r,
                   steps = [ErrorStep ''No scenes provided''], ffmpeg_commands = [],
                   result = Some (ErrorBody ''No scenes provided'')\<rparr>]\<rparr>,
      Some (500, ErrorBody ''No scenes provided''))"
    using validation_failure [OF h1 h2, of decimal_ops ex_env] v
    by (simp add: g w p i)
  have 2: "handleRender decimal_ops ?e (Some ?r) idle =
     (\<lparr>activeRenders = 0,
       events = [WriteFailed ''/opt/ffmpeg-api/render_logs/renderlog_g1.json'']\<rparr>, None)"
    using validation_failure [OF h1 h2, of decimal_ops ?e] v
    by (simp add: g w p i)
  show ?thesis
    by (intro conjI h1 1 2) simp
qed

text \<open>
  C5 as stated fails: a request without scenes leaves a render log behind.
\<close>

theorem validation_failure_writes_log:
  "scenes (ex_request\<lparr>scenes := None\<rparr>) = None \<and>
   activeRenders idle < MAX_CONCURRENT_RENDERS \<and>
   events (fst (handleRender decimal_ops ex_env (Some (ex_request\<lparr>scenes := None\<rparr>)) idle)) =
     [WriteLog ''/opt/ffmpeg-api/render_logs/renderlog_g1.json''
        \<lparr>log_request = Some (ex_request\<lparr>scenes := None\<rparr>),
         steps = [ErrorStep ''No scenes provided''], ffmpeg_commands = [],
         result = Some (ErrorBody ''No scenes provided'')\<rparr>]"
  by code_simp

text \<open>
  C7 (as amended). An admitted job answers with status 200 only if the output file
  exists and has at least 1000 bytes. If the file is missing or has fewer than 1000
  bytes, the job does not answer 200 and starts no upload; and when the steps up to the
  final encode have succeeded, the job reaches the \<open>catch\<close> clause with the non-empty
  message of that check: the last thing it does is to write the render log with that
  error, and the answer is the 500 error with that message, unless the log could not
  be written, in which case there is no answer.
\<close>

theorem output_validation:
  assumes "activeRenders s < MAX_CONCURRENT_RENDERS" and "template ops (genId e req) = Some gid"
  shows
    "((\<exists>b. snd (handleRender ops e (Some req) s) = Some (200, b)) \<longrightarrow>
        (\<exists>sz\<ge>1000. file_size e (outputPath gid) = Some sz)) \<and>
     ((\<forall>sz. file_size e (outputPath gid) = Some sz \<longrightarrow> sz < 1000) \<longrightarrow>
        (\<forall>b. snd (handleRender ops e (Some req) s) \<noteq> Some (200, b)) \<and>
        filter is_upload (events (fst (handleRender ops e (Some req) s))) =
          filter is_upload (events s)) \<and>
     (validate req = None \<and> mkdir_error e = (\<lambda>p. None) \<and> download_error e = None \<and>
      (\<forall>c. ffmpeg e c = ExecOk) \<and>
      write_error e (path_join (tempDir gid) ''concat.txt'') = None \<longrightarrow>
        (file_size e (outputPath gid) = None \<longrightarrow>
           snd (handleRender ops e (Some req) s) =
             (case write_error e (logPath e gid) of
                None \<Rightarrow> Some (500, ErrorBody ''FFmpeg produced no output file'')
              | Some m \<Rightarrow> None) \<and>
           (case last (events (fst (handleRender ops e (Some req) s))) of
              WriteLog p l \<Rightarrow>
                p = logPath e gid \<and>
                result l = Some (ErrorBody ''FFmpeg produced no output file'')
            | WriteFailed p \<Rightarrow> p = logPath e gid
            | _ \<Rightarrow> False)) \<and>
        (\<forall>n<1000. file_size e (outputPath gid) = Some n \<longrightarrow>
           snd (handleRender ops e (Some req) s) =
             (case write_error e (logPath e gid) of
                None \<Rightarrow> Some (500, ErrorBody (''Output file suspiciously small: '' @
                                              show_nat n @ '' bytes''))
              | Some m \<Rightarrow> None) \<and>
           (case last (events (fst (handleRender ops e (Some req) s))) of
              WriteLog p l \<Rightarrow>
                p = logPath e gid \<and>
                result l = Some (ErrorBody (''Output file suspiciously small: '' @
                                            show_nat n @ '' bytes''))
            | WriteFailed p \<Rightarrow> p = logPath e gid
            | _ \<Rightarrow> False)))"
proof -
  let ?s1 = "s\<lparr>activeRenders := activeRenders s + 1\<rparr>"
  let ?js = "(new_log (Some req), ?s1)"
  obtain js' resp where t: "try_catch ops e req gid ?js = (js', resp)"
    by (cases "try_catch ops e req gid ?js")
  note r = try_catch_result[OF t]
  have h: "handleRender ops e (Some req) s = (finally_block (snd js'), resp)"
    using handleRender_admitted[OF assms] t by simp
  have 1: "(\<exists>b. snd (handleRender ops e (Some req) s) = Some (200, b)) \<longrightarrow>
        (\<exists>sz\<ge>1000. file_size e (outputPath gid) = Some sz)"
    using h r(2) by auto
  have 2: "(\<forall>sz. file_size e (outputPath gid) = Some sz \<longrightarrow> sz < 1000) \<longrightarrow>
        (\<forall>b. snd (handleRender ops e (Some req) s) \<noteq> Some (200, b)) \<and>
        filter is_upload (events (fst (handleRender ops e (Some req) s))) =
          filter is_upload (events s)"
    using h r(3) by (simp add: finally_block_def)
  have 3: "(file_size e (outputPath gid) = None \<longrightarrow>
           snd (handleRender ops e (Some req) s) =
             (case write_error e (logPath e gid) of
                None \<Rightarrow> Some (500, ErrorBody ''FFmpeg produced no output file'')
              | Some m \<Rightarrow> None) \<and>
           (case last (events (fst (handleRender ops e (Some req) s))) of
              WriteLog p l \<Rightarrow>
                p = logPath e gid \<and>
                result l = Some (ErrorBody ''FFmpeg produced no output file'')
            | WriteFailed p \<Rightarrow> p = logPath e gid
            | _ \<Rightarrow> False)) \<and>
        (\<forall>n<1000. file_size e (outputPath gid) = Some n \<longrightarrow>
           snd (handleRender ops e (Some req) s) =
             (case write_error e (logPath e gid) of
                None \<Rightarrow> Some (500, ErrorBody (''Output file suspiciously small: '' @
                                              show_nat n @ '' bytes''))
              | Some m \<Rightarrow> None) \<and>
           (case last (events (fst (handleRender ops e (Some req) s))) of
              WriteLog p l \<Rightarrow>
                p = logPath e gid \<and>
                result l = Some (ErrorBody (''Output file suspiciously small: '' @
                                            show_nat n @ '' bytes''))
            | WriteFailed p \<Rightarrow> p = logPath e gid
            | _ \<Rightarrow> False))"
    if ok: "validate req = None \<and> mkdir_error e = (\<lambda>p. None) \<and> download_error e = None \<and>
            (\<forall>c. ffmpeg e c = ExecOk) \<and>
            write_error e (path_join (tempDir gid) ''concat.txt'') = None"
  proof (intro conjI impI allI)
    from ok have a: "validate req = None" "mkdir_error e = (\<lambda>p. None)" "download_error e = None"
      "\<And>c. ffmpeg e c = ExecOk" "write_error e (path_join (tempDir gid) ''concat.txt'') = None"
      by simp_all
    have m1: "message NoOutputFile = ''FFmpeg produced no output file''"
      by simp
    have m2: "message (OutputTooSmall n) =
                ''Output file suspiciously small: '' @ show_nat n @ '' bytes''" for n
      by simp
    {
      assume f: "file_size e (outputPath gid) = None"
      note rej = handleRender_rejects[OF assms try_block_rejects(1)[OF a f, of ops ?js]]
      show "snd (handleRender ops e (Some req) s) =
             (case write_error e (logPath e gid) of
                None \<Rightarrow> Some (500, ErrorBody ''FFmpeg produced no output file'')
              | Some m \<Rightarrow> None)"
        using rej(1) unfolding m1 .
      show "case last (events (fst (handleRender ops e (Some req) s))) of
              WriteLog p l \<Rightarrow>
                p = logPath e gid \<and>
                result l = Some (ErrorBody ''FFmpeg produced no output file'')
            | WriteFailed p \<Rightarrow> p = logPath e gid
            | _ \<Rightarrow> False"
        using rej(2) unfolding m1 .
    }
    {
      fix n :: nat
      assume n: "n < 1000" and f: "file_size e (outputPath gid) = Some n"
      note rej = handleRender_rejects[OF assms try_block_rejects(2)[OF a f n, of ops ?js]]
      show "snd (handleRender ops e (Some req) s) =
             (case write_error e (logPath e gid) of
                None \<Rightarrow> Some (500, ErrorBody (''Output file suspiciously small: '' @
                                              show_nat n @ '' bytes''))
              | Some m \<Rightarrow> None)"
        using rej(1) unfolding m2 .
      show "case last (events (fst (handleRender ops e (Some req) s))) of
              WriteLog p l \<Rightarrow>
                p = logPath e gid \<and>
                result l = Some (ErrorBody (''Output file suspiciously small: '' @
                                            show_nat n @ '' bytes''))
            | WriteFailed p \<Rightarrow> p = logPath e gid
            | _ \<Rightarrow> False"
        using rej(2) unfolding m2 .
    }
  qed
  from 1 2 3 show ?thesis by blast
qed

theorem output_validation_witness:
  "activeRenders idle < MAX_CONCURRENT_RENDERS \<and>
   template decimal_ops (genId ex_env ex_request) = Some ''g1'' \<and>
   file_size (ex_env\<lparr>file_size := \<lambda>p. Some 12\<rparr>) (outputPath ''g1'') = Some 12 \<and>
   snd (handleRender decimal_ops (ex_env\<lparr>file_size := \<lambda>p. Some 12\<rparr>) (Some ex_request) idle) =
     Some (500, ErrorBody ''Output file suspiciously small: 12 bytes'') \<and>
   filter is_upload
     (events (fst (handleRender decimal_ops (ex_env\<lparr>file_size := \<lambda>p. Some 12\<rparr>)
                     (Some ex_request) idle))) = [] \<and>
   snd (handleRender decimal_ops (ex_env\<lparr>file_size := \<lambda>p. None\<rparr>) (Some ex_request) idle) =
     Some (500, ErrorBody ''FFmpeg produced no output file'')"
proof -
  have h: "activeRenders idle < MAX_CONCURRENT_RENDERS"
    by (simp add: idle_def MAX_CONCURRENT_RENDERS_def)
  have g: "template decimal_ops (genId E ex_request) = Some ''g1''" for E
    by (simp add: genId_def ex_request_def)
  have v: "validate ex_request = None"
    by code_simp
  have ok: "mkdir_error (ex_env\<lparr>file_size := f\<rparr>) = (\<lambda>p. None)"
    "download_error (ex_env\<lparr>file_size := f\<rparr>) = None"
    "\<forall>c. ffmpeg (ex_env\<lparr>file_size := f\<rparr>) c = ExecOk"
    "write_error (ex_env\<lparr>file_size := f\<rparr>) P = None" for f P
    by (simp_all add: ex_env_def)
  have n: "show_nat 12 = ''12''"
    by code_simp
  have 1: "snd (handleRender decimal_ops (ex_env\<lparr>file_size := \<lambda>p. Some 12\<rparr>) (Some ex_request) idle) =
     Some (500, ErrorBody ''Output file suspiciously small: 12 bytes'')"
    using output_validation [OF h g, of "ex_env\<lparr>file_size := \<lambda>p. Some 12\<rparr>"] v ok n
    by simp
  have "filter is_upload
     (events (fst (handleRender decimal_ops (ex_env\<lparr>file_size := \<lambda>p. Some 12\<rparr>) (Some ex_request) idle))) =
     filter is_upload (events idle)"
    using output_validation [OF h g, of "ex_env\<lparr>file_size := \<lambda>p. Some 12\<rparr>"]
    by simp
  then have 2: "filter is_upload
     (events (fst (handleRender decimal_ops (ex_env\<lparr>file_size := \<lambda>p. Some 12\<rparr>) (Some ex_request) idle))) = []"
    by (simp add: idle_def)
  have 3: "snd (handleRender decimal_ops (ex_env\<lparr>file_size := \<lambda>p. None\<rparr>) (Some ex_request) idle) =
     Some (500, ErrorBody ''FFmpeg produced no output file'')"
    using output_validation [OF h g, of "ex_env\<lparr>file_size := \<lambda>p. None\<rparr>"] v ok
    by simp
  show ?thesis
    by (intro conjI h g 1 2 3) simp
qed

text \<open>
  C7 as stated fails: the guard is \<open>outputSize < 1000\<close>, so an output of exactly 1000
  bytes, which does not exceed 1000, is accepted and uploaded.
\<close>

theorem output_of_1000_bytes_accepted:
  "file_size ex_env (outputPath ''g1'') = Some 1000 \<and>
   \<not> (1000::nat) > 1000 \<and>
   snd (handleRender decimal_ops ex_env (Some ex_request) idle) =
     Some (200, CompleteBody ''https://files.example/videos/g1.mp4'' (Num 3) 1000) \<and>
   filter is_upload (events (fst (handleRender decimal_ops ex_env (Some ex_request) idle))) =
     [Upload ''/tmp/render-g1/output.mp4'' ''videos/g1.mp4'']"
  by code_simp

section \<open>The counter of active renders\<close>

text \<open>
  Once the \<open>try\<close> statement is entered, the counter is released whatever the outside
  world answers. With jobs in flight, the counter is the number of waiting jobs plus the
  number of calls that ended before the \<open>try\<close> statement, and it stays within the
  ceiling. Running one request from arrival through both settled promises is
  \<open>handleRender\<close>.
\<close>

lemma handleRender_releases:
  assumes "activeRenders s < MAX_CONCURRENT_RENDERS" and "template ops (genId e req) = Some gid"
  shows "activeRenders (fst (handleRender ops e (Some req) s)) = activeRenders s"
proof -
  let ?js = "(new_log (Some req), s\<lparr>activeRenders := activeRenders s + 1\<rparr>)"
  have "activeRenders (snd (fst (try_catch ops e req gid ?js))) = activeRenders s + 1"
    using try_catch_result(1)[of ops e req gid ?js]
    by (cases "try_catch ops e req gid ?js") simp
  then show ?thesis
    unfolding handleRender_admitted[OF assms] by (simp add: finally_block_def)
qed

lemma handleRender_leaks:
  assumes "activeRenders s < MAX_CONCURRENT_RENDERS"
    and "b = None \<or> (\<exists>req. b = Some req \<and> template ops (genId e req) = None)"
  shows "handleRender ops e b s = (s\<lparr>activeRenders := activeRenders s + 1\<rparr>, None)"
  using assms by (auto simp add: handleRender_def Let_def)

lemma finish_simps:
  "activeRenders (server (finish k r sys)) = activeRenders (snd (fst r)) - 1"
  "length (jobs (finish k r sys)) =
     (if k < length (jobs sys) then length (jobs sys) - 1 else length (jobs sys))"
  "leaked (finish k r sys) = leaked sys"
  by (auto simp add: finish_def finally_block_def)

lemma catch_block_counter:
  "activeRenders (snd (fst (catch_block e g err js))) = activeRenders (snd js)"
  using catch_block_result(1)[of e g err js] by (cases "catch_block e g err js") simp

lemma arrive_invariant:
  assumes "activeRenders (server sys) = int (length (jobs sys)) + int (leaked sys)"
  shows "activeRenders (server (arrive ops e b sys)) =
           int (length (jobs (arrive ops e b sys))) + int (leaked (arrive ops e b sys))"
proof (cases "activeRenders (server sys) \<ge> MAX_CONCURRENT_RENDERS")
  case True
  then show ?thesis using assms by (simp add: arrive_def)
next
  case False
  let ?s1 = "(server sys)\<lparr>activeRenders := activeRenders (server sys) + 1\<rparr>"
  show ?thesis
  proof (cases "\<exists>req gid. b = Some req \<and> template ops (genId e req) = Some gid")
    case no: False
    then show ?thesis
      using False assms by (cases b) (auto simp add: arrive_def Let_def split: option.splits)
  next
    case True
    then obtain req gid where b: "b = Some req" and g: "template ops (genId e req) = Some gid"
      by blast
    obtain js r where bj: "begin_job e req (tempDir gid) (new_log b, ?s1) = (js, r)"
      by (cases "begin_job e req (tempDir gid) (new_log b, ?s1)")
    have b1: "activeRenders (snd js) = activeRenders (server sys) + 1"
      using begin_job_result(1)[OF bj] by simp
    show ?thesis
    proof (cases r)
      case None
      then show ?thesis
        using False b g bj b1 assms by (simp add: arrive_def)
    next
      case (Some err)
      then show ?thesis
        using False b g bj b1 assms
        by (simp add: arrive_def finish_simps catch_block_counter)
    qed
  qed
qed

lemma resume_invariant:
  assumes "activeRenders (server sys) = int (length (jobs sys)) + int (leaked sys)"
  shows "activeRenders (server (resume ops e k sys)) =
           int (length (jobs (resume ops e k sys))) + int (leaked (resume ops e k sys))"
proof (cases "k \<ge> length (jobs sys)")
  case True
  then show ?thesis using assms by (simp add: resume_def)
next
  case False
  then have k: "k < length (jobs sys)" by simp
  have fin: "activeRenders (server (finish k r sys)) =
               int (length (jobs (finish k r sys))) + int (leaked (finish k r sys))"
    if "activeRenders (snd (fst r)) = activeRenders (server sys)" for r
    using that assms k by (simp add: finish_simps)
  show ?thesis
  proof (cases "jobs sys ! k")
    case (AwaitDownloads req gid renderLog)
    obtain js r where a:
      "after_downloads ops e req (tempDir gid) (renderLog, server sys) = (js, r)"
      by (cases "after_downloads ops e req (tempDir gid) (renderLog, server sys)")
    have a1: "activeRenders (snd js) = activeRenders (server sys)"
      using after_downloads_result(1)[OF a] by simp
    show ?thesis
      using False AwaitDownloads a a1 assms fin catch_block_counter
      by (auto simp add: resume_def split: option.splits sum.splits)
  next
    case (AwaitUpload req gid renderLog outputSize outputDuration)
    obtain js r where u:
      "after_upload e req gid outputSize outputDuration (renderLog, server sys) = (js, r)"
      by (cases "after_upload e req gid outputSize outputDuration (renderLog, server sys)")
    have u1: "activeRenders (snd js) = activeRenders (server sys)"
      using after_upload_result(1)[OF u] by simp
    show ?thesis
      using False AwaitUpload u u1 fin catch_block_counter
      by (auto simp add: resume_def split: option.splits sum.splits)
  qed
qed

lemma reachable_counter:
  assumes "reachable sys"
  shows "activeRenders (server sys) = int (length (jobs sys)) + int (leaked sys)"
  using assms
proof (induction rule: reachable.induct)
  case init
  show ?case by (simp add: start_def)
next
  case (arrival sys ops e b)
  then show ?case by (simp add: arrive_invariant)
next
  case (settled sys ops e k)
  then show ?case by (simp add: resume_invariant)
qed

lemma arrive_bound:
  assumes "activeRenders (server sys) \<le> MAX_CONCURRENT_RENDERS"
  shows "activeRenders (server (arrive ops e b sys)) \<le> MAX_CONCURRENT_RENDERS"
proof (cases "activeRenders (server sys) \<ge> MAX_CONCURRENT_RENDERS")
  case True
  then show ?thesis using assms by (simp add: arrive_def)
next
  case False
  let ?s1 = "(server sys)\<lparr>activeRenders := activeRenders (server sys) + 1\<rparr>"
  show ?thesis
  proof (cases "\<exists>req gid. b = Some req \<and> template ops (genId e req) = Some gid")
    case no: False
    then show ?thesis
      using False by (cases b) (auto simp add: arrive_def Let_def split: option.splits)
  next
    case True
    then obtain req gid where b: "b = Some req" and g: "template ops (genId e req) = Some gid"
      by blast
    obtain js r where bj: "begin_job e req (tempDir gid) (new_log b, ?s1) = (js, r)"
      by (cases "begin_job e req (tempDir gid) (new_log b, ?s1)")
    have b1: "activeRenders (snd js) = activeRenders (server sys) + 1"
      using begin_job_result(1)[OF bj] by simp
    show ?thesis
    proof (cases r)
      case None
      then show ?thesis
        using False b g bj b1 by (simp add: arrive_def)
    next
      case (Some err)
      then show ?thesis
        using False b g bj b1
        by (simp add: arrive_def finish_simps catch_block_counter)
    qed
  qed
qed

lemma resume_bound:
  "activeRenders (server (resume ops e k sys)) \<le> activeRenders (server sys)"
proof (cases "k \<ge> length (jobs sys)")
  case True
  then show ?thesis by (simp add: resume_def)
next
  case False
  show ?thesis
  proof (cases "jobs sys ! k")
    case (AwaitDownloads req gid renderLog)
    obtain js r where a:
      "after_downloads ops e req (tempDir gid) (renderLog, server sys) = (js, r)"
      by (cases "after_downloads ops e req (tempDir gid) (renderLog, server sys)")
    have a1: "activeRenders (snd js) = activeRenders (server sys)"
      using after_downloads_result(1)[OF a] by simp
    show ?thesis
      using False AwaitDownloads a a1 catch_block_counter
      by (auto simp add: resume_def finish_simps split: option.splits sum.splits)
  next
    case (AwaitUpload req gid renderLog outputSize outputDuration)
    obtain js r where u:
      "after_upload e req gid outputSize outputDuration (renderLog, server sys) = (js, r)"
      by (cases "after_upload e req gid outputSize outputDuration (renderLog, server sys)")
    have u1: "activeRenders (snd js) = activeRenders (server sys)"
      using after_upload_result(1)[OF u] by simp
    show ?thesis
      using False AwaitUpload u u1 catch_block_counter
      by (auto simp add: resume_def finish_simps split: option.splits sum.splits)
  qed
qed

lemma reachable_bound:
  assumes "reachable sys"
  shows "activeRenders (server sys) \<le> MAX_CONCURRENT_RENDERS"
  using assms
proof (induction rule: reachable.induct)
  case init
  show ?case by (simp add: start_def MAX_CONCURRENT_RENDERS_def)
next
  case (arrival sys ops e b)
  then show ?case by (simp add: arrive_bound)
next
  case (settled sys ops e k)
  then show ?case using resume_bound[of ops e k sys] by simp
qed

lemma handleRender_as_steps:
  assumes "template ops (genId e req) = Some gid"
  shows "resume ops e 0 (resume ops e 0
           (arrive ops e (Some req) \<lparr>server = s, jobs = [], responses = [], leaked = 0\<rparr>)) =
     \<lparr>server = fst (handleRender ops e (Some req) s), jobs = [],
      responses = (case snd (handleRender ops e (Some req) s) of
                     Some resp \<Rightarrow> [resp] | None \<Rightarrow> []),
      leaked = 0\<rparr>"
proof (cases "activeRenders s \<ge> MAX_CONCURRENT_RENDERS")
  case True
  then show ?thesis
    by (simp add: handleRender_def arrive_def resume_def)
next
  case False
  let ?s1 = "s\<lparr>activeRenders := activeRenders s + 1\<rparr>"
  obtain js1 r1 where b: "begin_job e req (tempDir gid) (new_log (Some req), ?s1) = (js1, r1)"
    by (cases "begin_job e req (tempDir gid) (new_log (Some req), ?s1)")
  show ?thesis
  proof (cases r1)
    case (Some err)
    then show ?thesis
      using False b assms
      by (simp add: handleRender_def try_catch_def try_block_def arrive_def resume_def
          finish_def Let_def split: prod.splits)
  next
    case None
    note n = this
    show ?thesis
    proof (cases "download_error e")
      case (Some m)
      then show ?thesis
        using False b n assms
        by (simp add: handleRender_def try_catch_def try_block_def arrive_def resume_def
            finish_def Let_def split: prod.splits)
    next
      case None
      note d = this
      obtain js2 r2 where a: "after_downloads ops e req (tempDir gid) js1 = (js2, r2)"
        by (cases "after_downloads ops e req (tempDir gid) js1")
      have a': "after_downloads ops e req (tempDir gid) (fst js1, snd js1) = (js2, r2)"
        using a by simp
      show ?thesis
      proof (cases r2)
        case (Inl err)
        then show ?thesis
          using False b n d a a' assms
          by (simp add: handleRender_def try_catch_def try_block_def arrive_def resume_def
              finish_def Let_def split: prod.splits)
      next
        case (Inr p)
        obtain sz du where p: "p = (sz, du)" by (cases p)
        show ?thesis
        proof (cases "upload_error e")
          case (Some m)
          then show ?thesis
            using False b n d a a' Inr p assms
            by (simp add: handleRender_def try_catch_def try_block_def arrive_def resume_def
                finish_def Let_def split: prod.splits)
        next
          case None
          obtain js3 r3 where u: "after_upload e req gid sz du js2 = (js3, r3)"
            by (cases "after_upload e req gid sz du js2")
          have u': "after_upload e req gid sz du (fst js2, snd js2) = (js3, r3)"
            using u by simp
          show ?thesis
            using False b n d a a' Inr p None u u' assms
            by (cases r3)
              (simp_all add: handleRender_def try_catch_def try_block_def arrive_def resume_def
                finish_def Let_def split: prod.splits)
        qed
      qed
    qed
  qed
qed

text \<open>
  C3 asks that the counter be released on every exit path of an accepted request. The
  destructuring of \<open>req.body\<close> and the template literal that builds \<open>tempDir\<close> stand
  between \<open>activeRenders++\<close> and the \<open>try\<close> statement. A request whose \<open>generation_id\<close> is
  the JSON object \<open>{"toString": 0}\<close> is accepted and counted; the template literal then
  throws, the \<open>finally\<close> clause is never reached, and the counter stays incremented, with
  no event and no answer from the handler. The same holds for a request whose body is
  \<open>undefined\<close>. After two such requests the counter is at the ceiling with no job
  running, and a well-formed request is refused.
\<close>

theorem counter_not_released:
  "activeRenders idle < MAX_CONCURRENT_RENDERS \<and>
   generation_id ex_unprintable = Some (JObj [(''toString'', JNum 0)]) \<and>
   template decimal_ops (genId ex_env ex_unprintable) = None \<and>
   handleRender decimal_ops ex_env (Some ex_unprintable) idle =
     (\<lparr>activeRenders = 1, events = []\<rparr>, None) \<and>
   handleRender decimal_ops ex_env (Some ex_unprintable) \<lparr>activeRenders = 1, events = []\<rparr> =
     (\<lparr>activeRenders = 2, events = []\<rparr>, None) \<and>
   handleRender decimal_ops ex_env (Some ex_request) \<lparr>activeRenders = 2, events = []\<rparr> =
     (\<lparr>activeRenders = 2, events = []\<rparr>,
      Some (503, BusyBody ''Server busy: 2/2 renders active. Try again later.'')) \<and>
   handleRender decimal_ops ex_env None idle = (\<lparr>activeRenders = 1, events = []\<rparr>, None) \<and>
   activeRenders (fst (handleRender decimal_ops ex_env (Some ex_request) idle)) = 0"
  by code_simp

end
